theory Spec2Isabelle
  imports Main "HOL-Library.Word" "HOL-Library.Log_Nat"
begin

section \<open>Python values, exceptions and library functions\<close>

text \<open>
  The program is \<^verbatim>\<open>src/server_update.py\<close>. Its functions are embedded as HOL functions
  over one record, \<open>process\<close>, that holds the objects the script keeps
  (\<^verbatim>\<open>ServerUpdater\<close>, \<^verbatim>\<open>FileUtil\<close>, \<^verbatim>\<open>args\<close>) and the part of the world it talks to
  (standard streams, files, the network). A function of the source that can raise returns
  \<open>exn + 'a\<close> (\<open>Inl\<close> the exception that escapes it) together with the new state.

  A string is a list of characters with code points below 256 (Latin-1): a string
  with a character beyond that is not a value of the model. The exceptions are the
  subclasses of \<^verbatim>\<open>Exception\<close> that occur; \<^verbatim>\<open>except Exception\<close> catches every one of
  them.
\<close>

type_synonym byte = "8 word"

datatype exn =
    URLError | HTTPError | FileNotFoundError | SameFileError | OSError
  | ValueError | TypeError | KeyError | IndexError | AttributeError | EOFError
  | OverflowError

text \<open>\<^verbatim>\<open>except URLError\<close>: \<^verbatim>\<open>HTTPError\<close> is a subclass of \<^verbatim>\<open>URLError\<close>.\<close>

definition is_URLError :: "exn \<Rightarrow> bool" where
  "is_URLError e = (e = URLError \<or> e = HTTPError)"

text \<open>A decoded JSON document, as \<^verbatim>\<open>json.load\<close> returns it. A float keeps its literal.\<close>

datatype json =
    JNull | JBool bool | JInt int | JFloat string | JStr string
  | JArr "json list" | JObj "(string \<times> json) list"

text \<open>\<^verbatim>\<open>data[key]\<close> for a string key: only a dict has string keys (the last of
  repeated keys wins in \<^verbatim>\<open>json.load\<close>); every other value raises \<^verbatim>\<open>TypeError\<close>.\<close>

definition subscript :: "json \<Rightarrow> string \<Rightarrow> exn + json" where
  "subscript data k =
     (case data of
        JObj kvs \<Rightarrow> (case map_of (rev kvs) k of None \<Rightarrow> Inl KeyError | Some v \<Rightarrow> Inr v)
      | _ \<Rightarrow> Inl TypeError)"

text \<open>\<^verbatim>\<open>type(current)\<close>, as \<^verbatim>\<open>format\<close> prints it.\<close>

definition type_name :: "json \<Rightarrow> string" where
  "type_name j =
     (case j of
        JNull \<Rightarrow> ''<class 'NoneType'>'' | JBool _ \<Rightarrow> ''<class 'bool'>''
      | JInt _ \<Rightarrow> ''<class 'int'>'' | JFloat _ \<Rightarrow> ''<class 'float'>''
      | JStr _ \<Rightarrow> ''<class 'str'>'' | JArr _ \<Rightarrow> ''<class 'list'>''
      | JObj _ \<Rightarrow> ''<class 'dict'>'')"

subsection \<open>\<^verbatim>\<open>int(str)\<close> and \<^verbatim>\<open>str(int)\<close>\<close>

text \<open>The characters \<^verbatim>\<open>int\<close> strips: the white space of ASCII, and below 256 also
  U+0085 and U+00A0. The decimal digits below 256 are those of ASCII.\<close>

definition is_space :: "char \<Rightarrow> bool" where
  "is_space c = (c = CHR '' '' \<or> c = CHR 0x09 \<or> c = CHR 0x0A \<or> c = CHR 0x0B
                 \<or> c = CHR 0x0C \<or> c = CHR 0x0D \<or> c = CHR 0x85 \<or> c = CHR 0xA0)"

definition is_digit :: "char \<Rightarrow> bool" where
  "is_digit c = (48 \<le> (of_char c :: nat) \<and> (of_char c :: nat) \<le> 57)"

definition digit_val :: "char \<Rightarrow> int" where
  "digit_val c = int (of_char c) - 48"

definition strip :: "string \<Rightarrow> string" where
  "strip s = rev (dropWhile is_space (rev (dropWhile is_space s)))"

text \<open>The digits of a decimal literal after its first digit: single underscores may
  stand between digits.\<close>

fun py_digits :: "int \<Rightarrow> string \<Rightarrow> int option" where
  "py_digits acc [] = Some acc"
| "py_digits acc (c # cs) =
     (if is_digit c then py_digits (10 * acc + digit_val c) cs
      else if c = CHR ''_'' then
        (case cs of
           [] \<Rightarrow> None
         | d # ds \<Rightarrow> if is_digit d then py_digits (10 * acc + digit_val d) ds else None)
      else None)"

text \<open>\<^verbatim>\<open>int(s)\<close> for a string: surrounding whitespace, an optional sign, a decimal
  literal; anything else raises \<^verbatim>\<open>ValueError\<close>, and so does a literal of more than 4300
  digits (the default \<^verbatim>\<open>sys.get_int_max_str_digits()\<close> of CPython 3.11).\<close>

definition max_str_digits :: nat where
  "max_str_digits = 4300"

definition py_int :: "string \<Rightarrow> exn + int" where
  "py_int s =
     (let t = strip s;
          sgn = (case t of c # _ \<Rightarrow> if c = CHR ''-'' then - 1 else 1 | [] \<Rightarrow> 1);
          u = (case t of c # r \<Rightarrow> if c = CHR ''-'' \<or> c = CHR ''+'' then r else t | [] \<Rightarrow> t)
      in case u of
           [] \<Rightarrow> Inl ValueError
         | c # cs \<Rightarrow>
             if is_digit c then
               (case py_digits (digit_val c) cs of
                  None \<Rightarrow> Inl ValueError
                | Some n \<Rightarrow>
                    if max_str_digits < length (filter is_digit u) then Inl ValueError
                    else Inr (sgn * n))
             else Inl ValueError)"

text \<open>\<^verbatim>\<open>int(x)\<close> for a header value, which is \<^verbatim>\<open>None\<close> when the header is absent.\<close>

definition py_int_opt :: "string option \<Rightarrow> exn + int" where
  "py_int_opt x = (case x of None \<Rightarrow> Inl TypeError | Some s \<Rightarrow> py_int s)"

fun str_nat :: "nat \<Rightarrow> string" where
  "str_nat n =
     (if n < 10 then [char_of (48 + n)] else str_nat (n div 10) @ [char_of (48 + n mod 10)])"

declare str_nat.simps [simp del]

definition str_int :: "int \<Rightarrow> string" where
  "str_int i = (if i < 0 then CHR ''-'' # str_nat (nat (- i)) else str_nat (nat i))"

subsection \<open>String and path functions\<close>

text \<open>\<^verbatim>\<open>s.split(" ", 1)\<close>: cut at the first space, if there is one.\<close>

definition split_space_1 :: "string \<Rightarrow> string list" where
  "split_space_1 s =
     (if CHR '' '' \<in> set s
      then [takeWhile (\<lambda>c. c \<noteq> CHR '' '') s, tl (dropWhile (\<lambda>c. c \<noteq> CHR '' '') s)]
      else [s])"

text \<open>\<^verbatim>\<open>s.split("-")[-1]\<close>: what follows the last dash.\<close>

definition split_dash_last :: "string \<Rightarrow> string" where
  "split_dash_last s = rev (takeWhile (\<lambda>c. c \<noteq> CHR ''-'') (rev s))"

text \<open>\<^verbatim>\<open>s[5:-1]\<close>.\<close>

definition slice_5_m1 :: "string \<Rightarrow> string" where
  "slice_5_m1 s = butlast (drop 5 s)"

text \<open>\<^verbatim>\<open>s.lower()\<close>: below 256 the capitals are A to Z and U+00C0 to U+00DE without
  U+00D7, each 32 below its small letter.\<close>

definition lower_char :: "char \<Rightarrow> char" where
  "lower_char c =
     (let n = (of_char c :: nat)
      in if (65 \<le> n \<and> n \<le> 90) \<or> (192 \<le> n \<and> n \<le> 222 \<and> n \<noteq> 215)
         then char_of (n + 32) else c)"

definition lower :: "string \<Rightarrow> string" where
  "lower s = map lower_char s"

text \<open>\<^verbatim>\<open>os.path.join(a, b)\<close> and \<^verbatim>\<open>os.path.dirname(p)\<close> of \<^verbatim>\<open>posixpath\<close>.\<close>

definition path_join :: "string \<Rightarrow> string \<Rightarrow> string" where
  "path_join a b =
     (if b \<noteq> [] \<and> hd b = CHR ''/'' then b
      else if a = [] \<or> last a = CHR ''/'' then a @ b
      else a @ ''/'' @ b)"

definition rstrip_slash :: "string \<Rightarrow> string" where
  "rstrip_slash s = rev (dropWhile (\<lambda>c. c = CHR ''/'') (rev s))"

definition dirname :: "string \<Rightarrow> string" where
  "dirname p =
     (let head = rev (dropWhile (\<lambda>c. c \<noteq> CHR ''/'') (rev p))
      in if head \<noteq> [] \<and> rstrip_slash head \<noteq> [] then rstrip_slash head else head)"

definition startswith :: "string \<Rightarrow> string \<Rightarrow> bool" where
  "startswith s pre = (take (length pre) s = pre)"

section \<open>The process state\<close>

text \<open>What the script writes to standard output: a \<^verbatim>\<open>print\<close>ed line, a raw
  \<^verbatim>\<open>sys.stdout.write\<close>, the block \<^verbatim>\<open>error_report(exc, net)\<close> prints, one rendering of
  the progress bar (prefix, number of \<^verbatim>\<open>#\<close>, number of \<^verbatim>\<open>.\<close>, bytes so far, total),
  and the prompt of an \<^verbatim>\<open>input\<close> call.\<close>

datatype out_item =
    Print string
  | Write string
  | ErrorReport exn bool
  | ProgressBar string int int int int
  | Prompt string

text \<open>The calls the script makes to the file system and the network, in order.\<close>

datatype call =
    Urlopen string
  | ReadCall int
  | OpenAppend string
  | WriteCall string "byte list"
  | CloseCall string
  | Copyfile string string
  | Remove string
  | MakeTemp string
  | Cleanup string

text \<open>What the operating system does to the next file operation: nothing, or the
  operation raises; a copy or write that raises may already have written the first \<open>n\<close>
  bytes (\<open>Some n\<close>).\<close>

datatype fault = NoFault | Fails exn "nat option"

text \<open>The document \<^verbatim>\<open>json.loads\<close> returns for a response of the API, as far as the
  callers look at it: their subscripts (\<^verbatim>\<open>['versions']\<close>, \<^verbatim>\<open>['builds']['all']\<close>) raise,
  or give the list of identifiers, of the shape the API documents (strings).\<close>

datatype document = Lacking exn | Listing "string list"

text \<open>A response \<^verbatim>\<open>urlopen\<close> returns: the \<^verbatim>\<open>content-length\<close> header, the bytes not
  read yet, for each coming \<^verbatim>\<open>read(amt)\<close> whether it raises, and what
  \<^verbatim>\<open>json.loads(data.read())\<close> evaluates to: the exception of the read or of the decoder,
  or the document.\<close>

record http_response =
  content_length :: "string option"
  body :: "byte list"
  read_faults :: "exn option list"
  decoded :: "exn + document"

text \<open>The installed build: an \<^verbatim>\<open>int\<close> from the configuration file, a \<^verbatim>\<open>str\<close> from
  the command line or after an update.\<close>

datatype build_id = BInt int | BStr string

definition str_build :: "build_id \<Rightarrow> string" where
  "str_build b = (case b of BInt i \<Rightarrow> str_int i | BStr s \<Rightarrow> s)"

record process =
  self_version :: string
  self_buildnum :: build_id
  self_available_versions :: "string list"
  self_prompt :: bool
  fileutil_path :: string
  fileutil_temp :: "string option"
  args_quiet :: bool
  sys_stdout :: "out_item list"
  sys_stdin :: "string list"
  os_files :: "string \<rightharpoonup> byte list"
  os_faults :: "fault list"
  os_json :: "string \<Rightarrow> exn + json"
  os_tempname :: string
  net_urlopen :: "string \<Rightarrow> exn + http_response"
  net_data :: http_response
  calls :: "call list"

text \<open>\<^verbatim>\<open>print(text)\<close>, and \<^verbatim>\<open>output(text)\<close> (here \<open>output_text\<close>), which prints
  unless \<^verbatim>\<open>args.quiet\<close>.\<close>

definition print_line :: "string \<Rightarrow> process \<Rightarrow> process" where
  "print_line t s = s\<lparr>sys_stdout := sys_stdout s @ [Print t]\<rparr>"

definition output_text :: "string \<Rightarrow> process \<Rightarrow> process" where
  "output_text t s = (if \<not> args_quiet s then print_line t s else s)"

fun print_lines :: "string list \<Rightarrow> process \<Rightarrow> process" where
  "print_lines [] s = s"
| "print_lines (t # ts) s = print_lines ts (print_line t s)"

declare print_lines.simps [simp del]

text \<open>\<^verbatim>\<open>error_report(exc, net)\<close>: always printed, also in quiet mode.\<close>

definition error_report :: "exn \<Rightarrow> bool \<Rightarrow> process \<Rightarrow> process" where
  "error_report exc net s = s\<lparr>sys_stdout := sys_stdout s @ [ErrorReport exc net]\<rparr>"

definition emitted :: "process \<Rightarrow> process \<Rightarrow> out_item list" where
  "emitted s s' = drop (length (sys_stdout s)) (sys_stdout s')"

definition performed :: "process \<Rightarrow> process \<Rightarrow> call list" where
  "performed s s' = drop (length (calls s)) (calls s')"

definition record_call :: "call \<Rightarrow> process \<Rightarrow> process" where
  "record_call c s = s\<lparr>calls := calls s @ [c]\<rparr>"

text \<open>\<open>more_output s s'\<close>: the state \<open>s'\<close> is \<open>s\<close> with more written to standard output.\<close>

definition more_output :: "process \<Rightarrow> process \<Rightarrow> bool" where
  "more_output s s' = (\<exists>new. s' = s\<lparr>sys_stdout := sys_stdout s @ new\<rparr>)"

text \<open>The \<^verbatim>\<open>read\<close> calls among some calls; the progress reports and the error reports
  among some output, and the bytes so far that a progress report shows.\<close>

definition read_calls :: "call list \<Rightarrow> call list" where
  "read_calls cs = filter (\<lambda>c. case c of ReadCall n \<Rightarrow> True | _ \<Rightarrow> False) cs"

definition progress_reports :: "out_item list \<Rightarrow> out_item list" where
  "progress_reports xs =
     filter (\<lambda>x. case x of ProgressBar p a b c d \<Rightarrow> True | _ \<Rightarrow> False) xs"

definition error_reports :: "out_item list \<Rightarrow> out_item list" where
  "error_reports xs = filter (\<lambda>x. case x of ErrorReport e n \<Rightarrow> True | _ \<Rightarrow> False) xs"

definition bytes_so_far :: "out_item \<Rightarrow> int" where
  "bytes_so_far x = (case x of ProgressBar p a b c d \<Rightarrow> c | _ \<Rightarrow> 0)"

section \<open>Config reader: \<^verbatim>\<open>FileUtil.load_config\<close>\<close>

definition config_default :: string where
  "config_default = ''version_history.json''"

text \<open>The body of the second \<^verbatim>\<open>try\<close> block (lines 426 to 438): unpacking the split into
  two names raises \<^verbatim>\<open>ValueError\<close> when there is no space.\<close>

definition parse_current :: "string \<Rightarrow> exn + (string \<times> int)" where
  "parse_current current =
     (case split_space_1 current of
        [build, version] \<Rightarrow>
          (case py_int (split_dash_last build) of
             Inl e \<Rightarrow> Inl e
           | Inr b \<Rightarrow> Inr (slice_5_m1 version, b))
      | _ \<Rightarrow> Inl ValueError)"

text \<open>Line 388: the file given, or \<^verbatim>\<open>version_history.json\<close> beside the target.\<close>

definition config_path :: "string option \<Rightarrow> process \<Rightarrow> string" where
  "config_path config s =
     (case config of
        Some c \<Rightarrow> c
      | None \<Rightarrow> path_join (dirname (fileutil_path s)) config_default)"

definition load_config :: "string option \<Rightarrow> process \<Rightarrow> (exn + string \<times> int) \<times> process" where
  "load_config config s0 =
     (let cfg = config_path config s0;
          s1 = output_text (''# Checking configuration file at ['' @ cfg @ ''] ...'') s0
      in if os_files s1 cfg \<noteq> None then
           (let s2 = output_text ''# Loading configuration data ...'' s1 in
            case os_json s2 cfg of
              Inl e \<Rightarrow>
                (Inr (''0'', 0),
                 print_line ''# Failed to load config data - Not in JSON format!'' s2)
            | Inr data \<Rightarrow>
                (case subscript data ''currentVersion'' of
                   Inl e \<Rightarrow> (Inl e, s2)
                 | Inr current \<Rightarrow>
                     (case current of
                        JStr cur \<Rightarrow>
                          (case parse_current cur of
                             Inl e \<Rightarrow>
                               (Inr (''0'', 0),
                                print_line (''# Unable to load config data - Invalid Format, ''
                                            @ ''we support official builds only!'') s2)
                           | Inr (version, build) \<Rightarrow>
                               (Inr (version, build),
                                output_text ''# Done loading configuration data! '' s2))
                      | _ \<Rightarrow>
                          (Inr (''0'', 0),
                           print_line (''# Failed to load config data - We want strings, not ''
                                       @ type_name current @ ''!'') s2))))
         else
           (Inr (''0'', 0),
            print_line (''# Unable to load config data from file at ['' @ cfg
                        @ ''] - Not found/Not a file!'') s1))"

section \<open>File operations\<close>

text \<open>Every file operation records its call and takes the next entry of the fault
  script. Distinct path strings name distinct files.\<close>

definition next_fault :: "process \<Rightarrow> fault" where
  "next_fault s = (case os_faults s of [] \<Rightarrow> NoFault | f # _ \<Rightarrow> f)"

definition os_call :: "call \<Rightarrow> process \<Rightarrow> process" where
  "os_call c s = s\<lparr>os_faults := tl (os_faults s), calls := calls s @ [c]\<rparr>"

text \<open>\<^verbatim>\<open>shutil.copyfile(src, dst)\<close>.\<close>

definition shutil_copyfile :: "string \<Rightarrow> string \<Rightarrow> process \<Rightarrow> (exn + unit) \<times> process" where
  "shutil_copyfile src dst s =
     (let s1 = os_call (Copyfile src dst) s in
      if src = dst then (Inl SameFileError, s1)
      else
        (case os_files s src of
           None \<Rightarrow> (Inl FileNotFoundError, s1)
         | Some bs \<Rightarrow>
             (case next_fault s of
                NoFault \<Rightarrow> (Inr (), s1\<lparr>os_files := (os_files s)(dst \<mapsto> bs)\<rparr>)
              | Fails e None \<Rightarrow> (Inl e, s1)
              | Fails e (Some n) \<Rightarrow>
                  (Inl e, s1\<lparr>os_files := (os_files s)(dst \<mapsto> take n bs)\<rparr>))))"

text \<open>\<^verbatim>\<open>os.remove(path)\<close>.\<close>

definition os_remove :: "string \<Rightarrow> process \<Rightarrow> (exn + unit) \<times> process" where
  "os_remove p s =
     (let s1 = os_call (Remove p) s in
      case os_files s p of
        None \<Rightarrow> (Inl FileNotFoundError, s1)
      | Some bs \<Rightarrow>
          (case next_fault s of
             NoFault \<Rightarrow> (Inr (), s1\<lparr>os_files := (os_files s)(p := None)\<rparr>)
           | Fails e _ \<Rightarrow> (Inl e, s1)))"

text \<open>\<^verbatim>\<open>open(path, mode='ba')\<close>, \<^verbatim>\<open>file.write(byts)\<close> and \<^verbatim>\<open>file.close()\<close>.\<close>

definition open_append :: "string \<Rightarrow> process \<Rightarrow> (exn + unit) \<times> process" where
  "open_append p s =
     (let s1 = os_call (OpenAppend p) s in
      case next_fault s of
        NoFault \<Rightarrow>
          (Inr (), s1\<lparr>os_files := (case os_files s p of
                                        None \<Rightarrow> (os_files s)(p \<mapsto> [])
                                      | Some bs \<Rightarrow> os_files s)\<rparr>)
      | Fails e _ \<Rightarrow> (Inl e, s1))"

definition file_write :: "string \<Rightarrow> byte list \<Rightarrow> process \<Rightarrow> (exn + unit) \<times> process" where
  "file_write p byts s =
     (let s1 = os_call (WriteCall p byts) s;
          old = (case os_files s p of None \<Rightarrow> [] | Some bs \<Rightarrow> bs)
      in case next_fault s of
           NoFault \<Rightarrow> (Inr (), s1\<lparr>os_files := (os_files s)(p \<mapsto> old @ byts)\<rparr>)
         | Fails e None \<Rightarrow> (Inl e, s1)
         | Fails e (Some n) \<Rightarrow>
             (Inl e, s1\<lparr>os_files := (os_files s)(p \<mapsto> old @ take n byts)\<rparr>))"

definition file_close :: "string \<Rightarrow> process \<Rightarrow> process" where
  "file_close p s = record_call (CloseCall p) s"

text \<open>\<^verbatim>\<open>FileUtil.create_temp_dir\<close>: \<^verbatim>\<open>tempfile.TemporaryDirectory()\<close> makes the
  directory \<open>os_tempname\<close>.\<close>

definition create_temp_dir :: "process \<Rightarrow> (exn + string) \<times> process" where
  "create_temp_dir s =
     (let s1 = os_call (MakeTemp (os_tempname s)) s in
      case next_fault s of
        NoFault \<Rightarrow> (Inr (os_tempname s), s1\<lparr>fileutil_temp := Some (os_tempname s)\<rparr>)
      | Fails e _ \<Rightarrow> (Inl e, s1))"

text \<open>\<^verbatim>\<open>self.temp.cleanup()\<close>: the directory and every file in it go.\<close>

definition temp_cleanup :: "string \<Rightarrow> process \<Rightarrow> (exn + unit) \<times> process" where
  "temp_cleanup t s =
     (let s1 = os_call (Cleanup t) s in
      case next_fault s of
        NoFault \<Rightarrow>
          (Inr (), s1\<lparr>os_files := (\<lambda>p. if startswith p (t @ ''/'') then None
                                         else os_files s p)\<rparr>)
      | Fails e _ \<Rightarrow> (Inl e, s1))"

text \<open>\<^verbatim>\<open>input(prompt)\<close>: the prompt goes to standard output, also in quiet mode; at the
  end of the input it raises \<^verbatim>\<open>EOFError\<close>.\<close>

definition input_line :: "string \<Rightarrow> process \<Rightarrow> (exn + string) \<times> process" where
  "input_line pt s =
     (let s1 = s\<lparr>sys_stdout := sys_stdout s @ [Prompt pt]\<rparr> in
      case sys_stdin s of
        [] \<Rightarrow> (Inl EOFError, s1)
      | l # ls \<Rightarrow> (Inr l, s1\<lparr>sys_stdin := ls\<rparr>))"

section \<open>Install manager: \<^verbatim>\<open>FileUtil.install\<close> and \<^verbatim>\<open>FileUtil._recover_backup\<close>\<close>

definition banner :: string where
  "banner = ''+==================================================+''"

definition fail_install :: "string \<Rightarrow> process \<Rightarrow> process" where
  "fail_install point s =
     print_lines
       [CHR 0x0A # banner,
        ''> !ATTENTION! <'',
        ''An error occurred during the installation, and we can not continue.'',
        ''We will attempt to recover your previous installation(If applicable)'',
        ''Fail point: '' @ point,
        ''Detailed error info below:''] s"

definition critical_recovery :: "exn \<Rightarrow> process \<Rightarrow> process" where
  "critical_recovery e s =
     print_line ''Your previous installation could not be recovered.''
       (error_report e False
          (print_lines [''# Critical error during recovery process!'',
                        ''# Displaying error information:''] s))"

text \<open>The second half of \<^verbatim>\<open>_recover_backup\<close> (lines 612 to 637), reached after the
  deletion or after \<^verbatim>\<open>FileNotFoundError\<close>. The \<^verbatim>\<open>print\<close> before the \<^verbatim>\<open>try\<close> reads
  \<^verbatim>\<open>self.temp.name\<close>, which raises \<^verbatim>\<open>AttributeError\<close> when there is no temporary
  directory.\<close>

definition recover_copy :: "process \<Rightarrow> (exn + bool) \<times> process" where
  "recover_copy s0 =
     (case fileutil_temp s0 of
        None \<Rightarrow> (Inl AttributeError, s0)
      | Some t \<Rightarrow>
          (let s1 = print_line (''# Copying backup file['' @ path_join t ''backup''
                                @ ''] to server root directory['' @ fileutil_path s0 @ '']...'') s0
           in case shutil_copyfile (path_join t ''backup'') (fileutil_path s1) s1 of
                (Inl e, s2) \<Rightarrow> (Inr False, critical_recovery e s2)
              | (Inr _, s2) \<Rightarrow>
                  (Inr True,
                   print_lines
                     [CHR 0x0A # ''Recovery process complete!'',
                      ''Your file has been successfully recovered.'',
                      ''Please debug the situation, and figure out why the problem occurred,'',
                      ''Before re-trying the update process.''] s2)))"

definition recover_backup :: "process \<Rightarrow> (exn + bool) \<times> process" where
  "recover_backup s0 =
     (let s1 = print_lines
                 [banner,
                  CHR 0x0A # ''> !ATTENTION! <'',
                  ''A failure has occurred during the installation process.'',
                  ''I'm sure you can see the error information above.'',
                  ''This script will attempt to recover your old installation.'',
                  ''If this operation fails, check the github page for more info: ''
                    @ ''https://github.com/Owen-Cochell/PaperMC-Update'',
                  ''# Deleting Corrupted temporary File...''] s0
      in case os_remove (fileutil_path s1) s1 of
           (Inl e, s2) \<Rightarrow>
             if e = FileNotFoundError
             then recover_copy (print_line ''# File not found. Continuing operation...'' s2)
             else (Inr False, critical_recovery e s2)
         | (Inr _, s2) \<Rightarrow> recover_copy s2)"

text \<open>After a failed step: \<^verbatim>\<open>_fail_install\<close>, \<^verbatim>\<open>error_report\<close>, \<^verbatim>\<open>_recover_backup\<close>
  (whose result \<^verbatim>\<open>install\<close> drops), \<^verbatim>\<open>return False\<close>.\<close>

definition fail_and_recover :: "string \<Rightarrow> exn \<Rightarrow> process \<Rightarrow> (exn + bool) \<times> process" where
  "fail_and_recover point e s =
     (case recover_backup (error_report e False (fail_install point s)) of
        (Inl e', s') \<Rightarrow> (Inl e', s')
      | (Inr _, s') \<Rightarrow> (Inr False, s'))"

text \<open>\<^verbatim>\<open>FileUtil.install\<close>, a sequence of three guarded steps with an early return after
  each; it is written here from its end to its start, each part taking over where the
  step before it succeeded. Lines 558 to 570: the temporary directory is removed.\<close>

definition install_finish :: "string \<Rightarrow> process \<Rightarrow> (exn + bool) \<times> process" where
  "install_finish t s10 =
     (let s11 = output_text ''# Done copying download data to root directory!'' s10;
          s12 = output_text ''# Cleaning up temporary directory...'' s11
      in case temp_cleanup t s12 of
           (Inl e, s13) \<Rightarrow> (Inl e, s13)
         | (Inr _, s13) \<Rightarrow>
             (Inr True,
              output_text ''[ --== installation complete! ==-- ]''
                (output_text ''# Done cleaning temporary directory!'' s13)))"

text \<open>Lines 530 to 556: the copy-in step.\<close>

definition install_copy_in :: "string \<Rightarrow> process \<Rightarrow> (exn + bool) \<times> process" where
  "install_copy_in t s6 =
     (let s7 = output_text ''# Removed original file!'' s6;
          s8 = output_text ''# Copying download data to root directory...'' s7;
          s9 = output_text (''# ('' @ path_join t ''download_data'' @ '' > ''
                            @ fileutil_path s8 @ '')'') s8
      in case shutil_copyfile (path_join t ''download_data'') (fileutil_path s9) s9 of
           (Inl e, s10) \<Rightarrow> fail_and_recover ''File Copy'' e s10
         | (Inr _, s10) \<Rightarrow> install_finish t s10)"

text \<open>Lines 506 to 528: the delete step.\<close>

definition install_delete :: "string \<Rightarrow> process \<Rightarrow> (exn + bool) \<times> process" where
  "install_delete t s3 =
     (let s4 = output_text (''# Backup created at: '' @ path_join t ''backup'') s3;
          s5 = output_text (''# Deleting current file at '' @ fileutil_path s4 @ ''...'') s4
      in case os_remove (fileutil_path s5) s5 of
           (Inl e, s6) \<Rightarrow> fail_and_recover ''Old File Deletion'' e s6
         | (Inr _, s6) \<Rightarrow> install_copy_in t s6)"

text \<open>The body of the first \<^verbatim>\<open>try\<close> (line 492), the backup-copy step: reading
  \<^verbatim>\<open>self.temp.name\<close> raises \<^verbatim>\<open>AttributeError\<close> when no temporary directory was made.\<close>

definition backup_step :: "process \<Rightarrow> (exn + unit) \<times> process" where
  "backup_step s =
     (case fileutil_temp s of
        None \<Rightarrow> (Inl AttributeError, s)
      | Some t \<Rightarrow> shutil_copyfile (fileutil_path s) (path_join t ''backup'') s)"

definition install :: "process \<Rightarrow> (exn + bool) \<times> process" where
  "install s0 =
     (let s1 = output_text (CHR 0x0A # ''[ --== installation: ==-- ]'') s0;
          s2 = output_text ''# Creating backup of previous installation...'' s1
      in case backup_step s2 of
           (Inl e, s3) \<Rightarrow> (Inr False, error_report e False (fail_install ''File Backup'' s3))
         | (Inr _, s3) \<Rightarrow>
             (case fileutil_temp s3 of
                None \<Rightarrow> (Inl AttributeError, s3)
              | Some t \<Rightarrow> install_delete t s3))"

text \<open>The failure of an install after its backup, and the recovery, as observed. The
  step that fails from a state where the backup was made (the deletion, or the copy-in
  after a deletion that worked), with its exception and the state it leaves behind.\<close>

definition failed_step :: "string \<Rightarrow> process \<Rightarrow> (exn \<times> process) option" where
  "failed_step t s =
     (let r = os_remove (fileutil_path s) s
      in case fst r of
           Inl e \<Rightarrow> Some (e, snd r)
         | Inr _ \<Rightarrow>
             (let c = shutil_copyfile (path_join t ''download_data'') (fileutil_path s) (snd r)
              in case fst c of Inl e \<Rightarrow> Some (e, snd c) | Inr _ \<Rightarrow> None))"

text \<open>The exception that makes the recovery fail when it starts from a state, if any:
  what \<^verbatim>\<open>os.remove\<close> of the target raises, \<^verbatim>\<open>FileNotFoundError\<close> apart, or else what the
  copy of the backup to the target raises.\<close>

definition copy_error :: "string \<Rightarrow> process \<Rightarrow> exn option" where
  "copy_error t s =
     (case fst (shutil_copyfile (path_join t ''backup'') (fileutil_path s) s) of
        Inl e \<Rightarrow> Some e
      | Inr _ \<Rightarrow> None)"

definition recovery_error :: "string \<Rightarrow> process \<Rightarrow> exn option" where
  "recovery_error t s =
     (let r = os_remove (fileutil_path s) s
      in case fst r of
           Inl e \<Rightarrow> if e = FileNotFoundError then copy_error t (snd r) else Some e
         | Inr _ \<Rightarrow> copy_error t (snd r))"

text \<open>How a recovery ends, read from what it wrote (\<open>new\<close>) and from the files. When
  nothing made it fail, the target holds the bytes \<open>orig\<close> again and the recovery is
  announced complete; when \<open>e\<close> made it fail, \<open>e\<close> is reported and the critical failure is
  announced; never both announcements.\<close>

definition recovery_outcome ::
  "exn option \<Rightarrow> byte list \<Rightarrow> string \<Rightarrow> process \<Rightarrow> out_item list \<Rightarrow> bool" where
  "recovery_outcome err orig target s' new =
     (case err of
        None \<Rightarrow>
          os_files s' target = Some orig
          \<and> Print (CHR 0x0A # ''Recovery process complete!'') \<in> set new
          \<and> Print ''# Critical error during recovery process!'' \<notin> set new
      | Some e \<Rightarrow>
          ErrorReport e False \<in> set new
          \<and> Print ''# Critical error during recovery process!'' \<in> set new
          \<and> Print ''Your previous installation could not be recovered.'' \<in> set new
          \<and> Print (CHR 0x0A # ''Recovery process complete!'') \<notin> set new)"

section \<open>Remote API client: \<^verbatim>\<open>Update\<close>\<close>

definition base_url :: string where
  "base_url = ''https://papermc.io/api/v1/paper''"

definition url_report :: "string \<Rightarrow> process \<Rightarrow> process" where
  "url_report point s =
     print_lines
       [CHR 0x0A # banner,
        ''> !ATTENTION! >'',
        ''An error occurred during a request operation.'',
        ''Fail Point: '' @ point,
        ''Your check/update operation will be canceled.'',
        ''Detailed error info below:''] s"

text \<open>\<^verbatim>\<open>Update._get(version, build_num)\<close>: the response, or \<^verbatim>\<open>None\<close> after reporting
  whatever \<^verbatim>\<open>urlopen\<close> raised.\<close>

definition api_get :: "string option \<Rightarrow> string option \<Rightarrow> process \<Rightarrow> http_response option \<times> process" where
  "api_get version build_num s =
     (let final = (case version of
                     None \<Rightarrow> base_url
                   | Some v \<Rightarrow>
                       (case build_num of
                          None \<Rightarrow> base_url @ ''/'' @ v
                        | Some b \<Rightarrow> base_url @ ''/'' @ v @ ''/'' @ b));
          s1 = record_call (Urlopen final) s
      in case net_urlopen s final of
           Inl e \<Rightarrow> (None, error_report e True (url_report ''API Fetch Operation'' s1))
         | Inr data \<Rightarrow> (Some data, s1))"

definition get_versions :: "process \<Rightarrow> (exn + string list option) \<times> process" where
  "get_versions s0 =
     (let s1 = output_text ''  > Fetching and decoding version info...'' s0
      in case api_get None None s1 of
           (None, s2) \<Rightarrow> (Inr None, s2)
         | (Some data, s2) \<Rightarrow>
             (case decoded data of
                Inl e \<Rightarrow> (Inl e, s2)
              | Inr doc \<Rightarrow>
                  (let s3 = output_text ''  > Done fetching version information!'' s2
                   in case doc of
                        Lacking e \<Rightarrow> (Inl e, s3)
                      | Listing versions \<Rightarrow> (Inr (Some versions), s3))))"

definition get_buildnums :: "string \<Rightarrow> process \<Rightarrow> (exn + string list option) \<times> process" where
  "get_buildnums version s0 =
     (let s1 = output_text ''  > Fetching and decoding build info...'' s0
      in case api_get (Some version) None s1 of
           (None, s2) \<Rightarrow> (Inr None, s2)
         | (Some data, s2) \<Rightarrow>
             (case decoded data of
                Inl e \<Rightarrow> (Inl e, s2)
              | Inr doc \<Rightarrow>
                  (let s3 = output_text ''  > Done fetching build info!'' s2
                   in case doc of
                        Lacking e \<Rightarrow> (Inl e, s3)
                      | Listing builds \<Rightarrow> (Inr (Some builds), s3))))"

section \<open>Float division\<close>

text \<open>\<^verbatim>\<open>n / b\<close> on two \<^verbatim>\<open>int\<close>s is the double nearest to the quotient, ties to the even
  mantissa. A double is written here as a pair \<open>(m, e)\<close> that stands for \<open>m * 2 ^ e\<close>, with
  a mantissa of 53 bits. \<open>round_half_even a b\<close> is the integer nearest to \<open>a / b\<close>;
  \<open>quotient_exponent n b\<close> is the exponent of the leading bit of \<open>n / b\<close>. Both arguments
  of the division are positive where the script divides, except that the numerator may
  be zero or negative.\<close>

type_synonym pyfloat = "int \<times> int"

definition round_half_even :: "int \<Rightarrow> int \<Rightarrow> int" where
  "round_half_even a b =
     (let q = a div b; r = a mod b
      in if 2 * r < b then q else if b < 2 * r then q + 1 else if even q then q else q + 1)"

definition quotient_exponent :: "int \<Rightarrow> int \<Rightarrow> int" where
  "quotient_exponent n b =
     (let d = bitlen n - bitlen b
      in if (if 0 \<le> d then b * 2 ^ nat d \<le> n else b \<le> n * 2 ^ nat (- d)) then d else d - 1)"

definition truediv :: "int \<Rightarrow> int \<Rightarrow> pyfloat" where
  "truediv n b =
     (if n = 0 then (0, 0)
      else
        (let a = \<bar>n\<bar>; e = quotient_exponent a b - 52;
             m = (if 0 \<le> e then round_half_even a (b * 2 ^ nat e)
                  else round_half_even (a * 2 ^ nat (- e)) b)
         in (if n < 0 then - m else m, e)))"

text \<open>The division raises \<^verbatim>\<open>OverflowError\<close> when the quotient is beyond the doubles.\<close>

definition float_overflows :: "pyfloat \<Rightarrow> bool" where
  "float_overflows f = (case f of (m, e) \<Rightarrow> 0 \<le> e \<and> 2 ^ 1024 \<le> \<bar>m\<bar> * 2 ^ nat e)"

text \<open>\<^verbatim>\<open>math.ceil(f)\<close> and \<^verbatim>\<open>int(f)\<close>.\<close>

definition float_ceil :: "pyfloat \<Rightarrow> int" where
  "float_ceil f = (case f of (m, e) \<Rightarrow> if 0 \<le> e then m * 2 ^ nat e
                                     else - ((- m) div 2 ^ nat (- e)))"

definition float_trunc :: "pyfloat \<Rightarrow> int" where
  "float_trunc f = (case f of (m, e) \<Rightarrow> if 0 \<le> e then m * 2 ^ nat e
                                      else if 0 \<le> m then m div 2 ^ nat (- e)
                                      else - ((- m) div 2 ^ nat (- e)))"

section \<open>Download manager: \<^verbatim>\<open>Update._progress_bar\<close> and \<^verbatim>\<open>Update.download\<close>\<close>

text \<open>The generator \<^verbatim>\<open>_progress_bar(total, step, end, prefix)\<close> with the body of the
  \<^verbatim>\<open>for\<close> loop that consumes it: for each \<open>i\<close> of \<^verbatim>\<open>range(total)\<close> the body runs, then
  the bar is rendered; an exception of the body leaves the loop. The bar has
  \<^verbatim>\<open>int(size*(i+1)/total)\<close> marks; inside the loop \<^verbatim>\<open>total\<close> is positive and the
  quotient at most \<^verbatim>\<open>size\<close>, so this division does not raise.\<close>

definition bar_size :: int where
  "bar_size = 60"

text \<open>What lines 126 and 127 write after round \<open>i\<close>.\<close>

definition bar_at :: "int \<Rightarrow> int \<Rightarrow> int \<Rightarrow> string \<Rightarrow> int \<Rightarrow> out_item" where
  "bar_at ntotal step endv prefix i =
     (let x = float_trunc (truediv (bar_size * (i + 1)) ntotal)
      in ProgressBar prefix x (bar_size - x) (if i < ntotal - 1 then i * step else endv) endv)"

definition render_bar :: "int \<Rightarrow> int \<Rightarrow> int \<Rightarrow> string \<Rightarrow> int \<Rightarrow> process \<Rightarrow> process" where
  "render_bar ntotal step endv prefix i s =
     (if \<not> args_quiet s
      then s\<lparr>sys_stdout := sys_stdout s @ [bar_at ntotal step endv prefix i]\<rparr>
      else s)"

fun progress_loop ::
  "nat list \<Rightarrow> int \<Rightarrow> int \<Rightarrow> int \<Rightarrow> string
   \<Rightarrow> (int \<Rightarrow> process \<Rightarrow> (exn + unit) \<times> process) \<Rightarrow> process \<Rightarrow> (exn + unit) \<times> process" where
  "progress_loop [] ntotal step endv prefix loop_body s = (Inr (), s)"
| "progress_loop (i # rest) ntotal step endv prefix loop_body s =
     (case loop_body (int i) s of
        (Inl e, s1) \<Rightarrow> (Inl e, s1)
      | (Inr _, s1) \<Rightarrow>
          progress_loop rest ntotal step endv prefix loop_body
            (render_bar ntotal step endv prefix (int i) s1))"

definition progress_bar ::
  "int \<Rightarrow> int \<Rightarrow> int \<Rightarrow> string
   \<Rightarrow> (int \<Rightarrow> process \<Rightarrow> (exn + unit) \<times> process) \<Rightarrow> process \<Rightarrow> (exn + unit) \<times> process" where
  "progress_bar ntotal step endv prefix loop_body s =
     (case progress_loop [0..<nat ntotal] ntotal step endv prefix loop_body s of
        (Inl e, s1) \<Rightarrow> (Inl e, s1)
      | (Inr _, s1) \<Rightarrow>
          (Inr (),
           if \<not> args_quiet s1 then s1\<lparr>sys_stdout := sys_stdout s1 @ [Write [CHR 0x0A]]\<rparr>
           else s1))"

text \<open>\<^verbatim>\<open>data.read(amt)\<close> on the open response.\<close>

definition data_read :: "int \<Rightarrow> process \<Rightarrow> (exn + byte list) \<times> process" where
  "data_read amt s =
     (let d = net_data s; s1 = record_call (ReadCall amt) s
      in case read_faults d of
           Some e # fs \<Rightarrow> (Inl e, s1\<lparr>net_data := d\<lparr>read_faults := fs\<rparr>\<rparr>)
         | _ \<Rightarrow>
             (Inr (take (nat amt) (body d)),
              s1\<lparr>net_data := d\<lparr>body := drop (nat amt) (body d),
                                read_faults := tl (read_faults d)\<rparr>\<rparr>))"

text \<open>The ceiling of the quotient of two integers, to compare with.\<close>

definition ceil_div :: "int \<Rightarrow> int \<Rightarrow> int" where
  "ceil_div a b = - ((- a) div b)"

text \<open>\<^verbatim>\<open>ceil(length/blocksize)\<close> of line 204, a float division.\<close>

definition ceil_truediv :: "int \<Rightarrow> int \<Rightarrow> exn + int" where
  "ceil_truediv a b =
     (if float_overflows (truediv a b) then Inl OverflowError
      else Inr (float_ceil (truediv a b)))"

definition blocksize :: int where
  "blocksize = 4608"

text \<open>The body of the download loop (lines 208 to 212).\<close>

definition download_chunk :: "string \<Rightarrow> int \<Rightarrow> process \<Rightarrow> (exn + unit) \<times> process" where
  "download_chunk path i s =
     (case data_read blocksize s of
        (Inl e, s1) \<Rightarrow> (Inl e, s1)
      | (Inr byts, s1) \<Rightarrow> file_write path byts s1)"

text \<open>The body of the \<^verbatim>\<open>try\<close> (line 204): the number of rounds is computed, then the
  loop runs.\<close>

definition download_loop :: "string \<Rightarrow> int \<Rightarrow> process \<Rightarrow> (exn + unit) \<times> process" where
  "download_loop path len s =
     (case ceil_truediv len blocksize of
        Inl e \<Rightarrow> (Inl e, s)
      | Inr rounds \<Rightarrow>
          progress_bar (rounds + 1) blocksize len ''Downloading:'' (download_chunk path) s)"

definition download :: "string \<Rightarrow> string \<Rightarrow> string \<Rightarrow> process \<Rightarrow> (exn + bool) \<times> process" where
  "download path version build_num s0 =
     (let s1 = output_text (CHR 0x0A # ''[ --== Starting Download: ==-- ]'') s0;
          url = base_url @ ''/'' @ version @ ''/'' @ build_num @ ''/download'';
          s2 = output_text (''URL: '' @ url) s1;
          s3 = record_call (Urlopen url) s2
      in case net_urlopen s3 url of
           Inl e \<Rightarrow>
             if is_URLError e
             then (Inr False, error_report e True (url_report ''File Download'' s3))
             else (Inl e, s3)
         | Inr data \<Rightarrow>
             (case py_int_opt (content_length data) of
                Inl e \<Rightarrow> (Inl e, s3\<lparr>net_data := data\<rparr>)
              | Inr len \<Rightarrow>
                  (let s4 = output_text (''Download Size: '' @ str_int len)
                              (s3\<lparr>net_data := data\<rparr>)
                   in case open_append path s4 of
                        (Inl e, s5) \<Rightarrow> (Inl e, s5)
                      | (Inr _, s5) \<Rightarrow>
                          (case download_loop path len s5 of
                             (Inl e, s6) \<Rightarrow>
                               (Inr False,
                                file_close path
                                  (error_report e (is_URLError e)
                                     (url_report ''File Download'' s6)))
                           | (Inr _, s6) \<Rightarrow>
                               (Inr True,
                                output_text ''[ --== Download Complete! ==-- ]''
                                  (file_close path s6))))))"

section \<open>Orchestrator: \<^verbatim>\<open>ServerUpdater\<close>\<close>

definition check :: "process \<Rightarrow> (exn + bool) \<times> process" where
  "check s0 =
     (let s1 = output_text (CHR 0x0A # ''[ --== Checking For New Version: ==-- ]'') s0;
          s2 = output_text ''# Comparing local <> remote server versions...'' s1
      in case get_versions s2 of
           (Inl e, s3) \<Rightarrow> (Inl e, s3)
         | (Inr None, s3) \<Rightarrow> (Inr False, s3)
         | (Inr (Some ver), s3) \<Rightarrow>
             (case ver of
                [] \<Rightarrow> (Inl IndexError, s3)
              | ver0 # _ \<Rightarrow>
                  if ver0 \<noteq> self_version s3 then
                    (Inr True,
                     output_text (''[ --== Version check complete! ==-- ]'' @ [CHR 0x0A])
                       (output_text (''# New Version available! - [Version: '' @ ver0 @ '']'') s3))
                  else
                    (let s4 = output_text ''# No new version available.'' s3;
                         s5 = output_text ''# Comparing local <> remote builds...'' s4
                     in case get_buildnums (self_version s5) s5 of
                          (Inl e, s6) \<Rightarrow> (Inl e, s6)
                        | (Inr None, s6) \<Rightarrow> (Inr False, s6)
                        | (Inr (Some build), s6) \<Rightarrow>
                            (case build of
                               [] \<Rightarrow> (Inl IndexError, s6)
                             | build0 # _ \<Rightarrow>
                                 if build0 \<noteq> str_build (self_buildnum s6) then
                                   (Inr True,
                                    output_text
                                      (''[ --== Version check complete! ==-- ]'' @ [CHR 0x0A])
                                      (output_text (''# New build available! - [Build: ''
                                                    @ build0 @ '']'') s6))
                                 else
                                   (Inr False,
                                    output_text
                                      (''[ --== Version check complete! ==-- ]'' @ [CHR 0x0A])
                                      (output_text ''# No new builds found.'' s6))))))"

text \<open>\<^verbatim>\<open>ServerUpdater._select(val, choice, default, name)\<close>. The message of the
  \<^verbatim>\<open>latest\<close> branch reads \<^verbatim>\<open>self._available_versions[0]\<close>, and the branch returns
  \<^verbatim>\<open>choice[0]\<close>: each raises \<^verbatim>\<open>IndexError\<close> on an empty list.\<close>

definition select :: "string \<Rightarrow> string list \<Rightarrow> string \<Rightarrow> string \<Rightarrow> process
                      \<Rightarrow> (exn + bool \<times> string) \<times> process" where
  "select val choice dflt name s =
     (let val1 = (if val = [] then dflt else val)
      in if val1 = ''latest'' then
           (case self_available_versions s of
              [] \<Rightarrow> (Inl IndexError, s)
            | av0 # _ \<Rightarrow>
                (let s1 = output_text (''# Selecting latest '' @ name @ '' - ['' @ av0 @ '']...'') s
                 in case choice of
                      [] \<Rightarrow> (Inl IndexError, s1)
                    | c0 # _ \<Rightarrow> (Inr (True, c0), s1)))
         else if val1 \<notin> set choice then
           (Inr (False, []),
            output_text (CHR 0x0A # ''# Error: Invalid '' @ name @ '' selected!'') s)
         else
           (Inr (True, val1),
            output_text (''# Selecting '' @ name @ '': ['' @ val1 @ '']...'') s))"

text \<open>The loops of \<^verbatim>\<open>version_select\<close> (lines 840 to 850 and 893 to 905):
  \<^verbatim>\<open>while True\<close>, ask, resolve, leave on a valid answer. Each round takes a line of
  the input, so the loop ends, at the latest with \<^verbatim>\<open>EOFError\<close>.\<close>

function select_loop :: "string \<Rightarrow> string list \<Rightarrow> string \<Rightarrow> string \<Rightarrow> process
                          \<Rightarrow> (exn + string) \<times> process" where
  "select_loop pt choice dflt name s =
     (case input_line pt s of
        (Inl e, s1) \<Rightarrow> (Inl e, s1)
      | (Inr val, s1) \<Rightarrow>
          (case select val choice dflt name s1 of
             (Inl e, s2) \<Rightarrow> (Inl e, s2)
           | (Inr (stat, v), s2) \<Rightarrow>
               if stat then (Inr v, s2) else select_loop pt choice dflt name s2))"
  by pat_completeness auto
termination
  apply (relation "measure (\<lambda>(pt, choice, dflt, name, s). length (sys_stdin s))")
   apply simp
  apply (auto simp: input_line_def select_def Let_def output_text_def print_line_def
              split: list.splits if_splits)
  done

declare select_loop.simps [simp del]

text \<open>\<^verbatim>\<open>ServerUpdater.version_select\<close>, in its two halves: the version (lines 803 to
  864) and the build (lines 866 to 927). \<open>None\<close> is the pair \<^verbatim>\<open>(None, None)\<close>.\<close>

definition select_version :: "string \<Rightarrow> process \<Rightarrow> (exn + string option) \<times> process" where
  "select_version default_version s =
     (if self_prompt s then
        (let s1 = print_lines
                    ([CHR 0x0A # ''[ --== Version Select: ==-- ] '',
                      CHR 0x0A # ''Please enter the version you would like to download:'',
                      ''Example: 14.4.4'',
                      ''(Tip: The value enclosed in brackets is the default option. ''
                        @ ''Leave the prompt blank to accept it.)'',
                      ''(Tip: Enter 'latest' to select the latest version.)'',
                      CHR 0x0A # ''Available versions:'']
                     @ map (\<lambda>i. ''  > Version: ['' @ i @ '']'') (self_available_versions s)) s
         in case select_loop (CHR 0x0A # ''Enter Version['' @ default_version @ '']: '')
                   (self_available_versions s1) default_version ''version'' s1 of
              (Inl e, s2) \<Rightarrow> (Inl e, s2)
            | (Inr ver, s2) \<Rightarrow> (Inr (Some ver), s2))
      else
        (case select [] (self_available_versions s) default_version ''version'' s of
           (Inl e, s1) \<Rightarrow> (Inl e, s1)
         | (Inr (stat, ver), s1) \<Rightarrow>
             if \<not> stat then (Inr None, print_line ''# Aborting installation!'' s1)
             else (Inr (Some ver), s1)))"

definition select_build :: "string list \<Rightarrow> string \<Rightarrow> process \<Rightarrow> (exn + string option) \<times> process" where
  "select_build nums default_build s =
     (if self_prompt s then
        (let s1 = print_lines
                    ([CHR 0x0A # ''Please enter the build you would like to download:'',
                      ''Example: 205'',
                      ''(Tip: The value enclosed in brackets is the default option. ''
                        @ ''Leave the prompt blank to accept it.)'',
                      ''(Tip: Enter 'latest' to select the latest build.)'',
                      CHR 0x0A # ''Available Builds:'']
                     @ map (\<lambda>i. ''  > Build Num: ['' @ i @ '']'') nums) s
         in case select_loop (CHR 0x0A # ''Enter Build['' @ default_build @ '']: '')
                   nums default_build ''build'' s1 of
              (Inl e, s2) \<Rightarrow> (Inl e, s2)
            | (Inr build, s2) \<Rightarrow> (Inr (Some build), s2))
      else
        (case select [] nums default_build ''build'' s of
           (Inl e, s1) \<Rightarrow> (Inl e, s1)
         | (Inr (stat, build), s1) \<Rightarrow>
             if \<not> stat then (Inr None, output_text ''# Aborting installation!'' s1)
             else (Inr (Some build), s1)))"

text \<open>Lines 803 to 821: the list of versions is fetched when the cached one is empty.\<close>

definition load_versions :: "process \<Rightarrow> (exn + bool) \<times> process" where
  "load_versions s0 =
     (let s1 = output_text ''# Checking version information...'' s0
      in if self_available_versions s1 = [] then
           (case get_versions (output_text ''# Loading version information...'' s1) of
              (Inl e, s2) \<Rightarrow> (Inl e, s2)
            | (Inr None, s2) \<Rightarrow> (Inr False, s2)
            | (Inr (Some data), s2) \<Rightarrow> (Inr True, s2\<lparr>self_available_versions := data\<rparr>))
         else (Inr True, s1))"

definition version_select :: "string \<Rightarrow> string \<Rightarrow> process
                              \<Rightarrow> (exn + (string \<times> string) option) \<times> process" where
  "version_select default_version default_build s0 =
     (case load_versions s0 of
        (Inl e, s1) \<Rightarrow> (Inl e, s1)
      | (Inr loaded, s1) \<Rightarrow>
          if \<not> loaded then (Inr None, s1)
          else
            (case select_version default_version s1 of
               (Inl e, s2) \<Rightarrow> (Inl e, s2)
             | (Inr None, s2) \<Rightarrow> (Inr None, s2)
             | (Inr (Some ver), s2) \<Rightarrow>
                 (case get_buildnums ver (output_text ''# Loading build information...'' s2) of
                    (Inl e, s3) \<Rightarrow> (Inl e, s3)
                  | (Inr None, s3) \<Rightarrow> (Inr None, s3)
                  | (Inr (Some nums), s3) \<Rightarrow>
                      (case select_build nums default_build s3 of
                         (Inl e, s4) \<Rightarrow> (Inl e, s4)
                       | (Inr None, s4) \<Rightarrow> (Inr None, s4)
                       | (Inr (Some build), s4) \<Rightarrow>
                           (Inr (Some (ver, build)),
                            output_text (CHR 0x0A # ''[ --== Version Selection Complete! ==-- ]'')
                              (output_text (''   > Build: ['' @ build @ '']'')
                                 (output_text (''   > Version: ['' @ ver @ '']'')
                                    (output_text (CHR 0x0A # ''You have selected:'') s4))))))))"

text \<open>\<^verbatim>\<open>ServerUpdater.get_new\<close>. \<open>get_new_install\<close> is lines 962 to 999, reached when
  the selection succeeded and the user did not decline.\<close>

definition get_new_install :: "string \<Rightarrow> string \<Rightarrow> process \<Rightarrow> (exn + unit) \<times> process" where
  "get_new_install ver build s0 =
     (let s1 = output_text ''# Creating temporary directory...'' s0
      in case create_temp_dir s1 of
           (Inl e, s2) \<Rightarrow> (Inl e, s2)
         | (Inr t, s2) \<Rightarrow>
             (let s3 = output_text (''# Temporary directory created at: '' @ t) s2
              in case download (path_join t ''download_data'') ver build s3 of
                   (Inl e, s4) \<Rightarrow> (Inl e, s4)
                 | (Inr val, s4) \<Rightarrow>
                     if \<not> val then (Inr (), s4)
                     else
                       (case install s4 of
                          (Inl e, s5) \<Rightarrow> (Inl e, s5)
                        | (Inr val', s5) \<Rightarrow>
                            if \<not> val' then (Inr (), s5)
                            else
                              (Inr (),
                               (output_text (CHR 0x0A # ''Update complete!'') s5)
                                 \<lparr>self_version := ver, self_buildnum := BStr build\<rparr>))))"

definition get_new :: "string \<Rightarrow> string \<Rightarrow> process \<Rightarrow> (exn + unit) \<times> process" where
  "get_new default_version default_build s0 =
     (case version_select default_version default_build s0 of
        (Inl e, s1) \<Rightarrow> (Inl e, s1)
      | (Inr None, s1) \<Rightarrow> (Inr (), s1)
      | (Inr (Some (ver, build)), s1) \<Rightarrow>
          if self_prompt s1 then
            (let s2 = print_line (CHR 0x0A # ''Do you want to continue with the installation?'') s1
             in case input_line ''(Y/N):'' s2 of
                  (Inl e, s3) \<Rightarrow> (Inl e, s3)
                | (Inr inp, s3) \<Rightarrow>
                    if lower inp \<in> set [''n'', ''no'']
                    then (Inr (), output_text ''Canceling installation...'' s3)
                    else get_new_install ver build s3)
          else get_new_install ver build s1)"

section \<open>A process to run the functions on\<close>

text \<open>The state right after start: nothing installed is known, no file exists, every
  request fails. The examples below change the fields they need.\<close>

definition idle_response :: http_response where
  "idle_response = \<lparr>content_length = None, body = [], read_faults = [], decoded = Inr (Listing [])\<rparr>"

definition start_process :: process where
  "start_process =
     \<lparr>self_version = ''0'', self_buildnum = BInt 0, self_available_versions = [],
      self_prompt = False, fileutil_path = ''server/paper.jar'', fileutil_temp = None,
      args_quiet = False, sys_stdout = [], sys_stdin = [], os_files = Map.empty,
      os_faults = [], os_json = (\<lambda>p. Inl ValueError), os_tempname = ''/tmp/tmpupdate'',
      net_urlopen = (\<lambda>u. Inl URLError), net_data = idle_response, calls = []\<rparr>"

text \<open>The shape \<^verbatim>\<open>"build-<buildnum> (MC: <version>)"\<close> that the
  spec gives for the configuration string, read literally: the word \<^verbatim>\<open>build-\<close>, one or
  more digits, a space, \<^verbatim>\<open>(MC: \<close>, the version, \<^verbatim>\<open>)\<close>.\<close>

definition spec_pattern :: "string \<Rightarrow> bool" where
  "spec_pattern s =
     (startswith s ''build-'' \<and>
      (let ds = takeWhile is_digit (drop 6 s); rest = dropWhile is_digit (drop 6 s)
       in ds \<noteq> [] \<and> startswith rest '' (MC: '' \<and> 7 \<le> length rest \<and> last rest = CHR '')''))"

text \<open>A remote side that offers versions 1.16.5 and 1.16.4, builds 205 and 204 of
  1.16.5, and three bytes for build 205; an installation of build 200 of 1.16.5.\<close>

definition paper_api :: "string \<Rightarrow> exn + http_response" where
  "paper_api u =
     (if u = base_url then Inr (idle_response\<lparr>decoded := Inr (Listing [''1.16.5'', ''1.16.4''])\<rparr>)
      else if u = base_url @ ''/1.16.5''
        then Inr (idle_response\<lparr>decoded := Inr (Listing [''205'', ''204''])\<rparr>)
      else if u = base_url @ ''/1.16.5/205/download''
        then Inr \<lparr>content_length = Some ''3'', body = [1, 2, 3], read_faults = [],
                   decoded = Inl ValueError\<rparr>
      else Inl HTTPError)"

definition installed_200 :: process where
  "installed_200 =
     start_process\<lparr>self_version := ''1.16.5'', self_buildnum := BInt 200,
                     net_urlopen := paper_api\<rparr>"

text \<open>A remote side that answers every request with an empty body of declared length 0.\<close>

definition empty_download :: process where
  "empty_download =
     start_process\<lparr>net_urlopen := (\<lambda>u. Inr (idle_response\<lparr>content_length := Some ''0''\<rparr>))\<rparr>"

text \<open>The state after a download: the target and the downloaded file exist.\<close>

definition staged_process :: process where
  "staged_process =
     start_process
       \<lparr>fileutil_temp := Some ''/tmp/tmpupdate'',
        os_files := [''server/paper.jar'' \<mapsto> [1, 2],
                     ''/tmp/tmpupdate/download_data'' \<mapsto> [7, 8, 9]]\<rparr>"

section \<open>Basic facts\<close>

text \<open>Printing changes standard output and nothing else.\<close>

lemma output_text_eq:
  "output_text t s = s\<lparr>sys_stdout := sys_stdout s @ (if args_quiet s then [] else [Print t])\<rparr>"
  by (simp add: output_text_def print_line_def)

lemma print_lines_eq:
  "print_lines ts s = s\<lparr>sys_stdout := sys_stdout s @ map Print ts\<rparr>"
  by (induction ts arbitrary: s) (simp_all add: print_lines.simps print_line_def)

lemma output_text_fields [simp]:
  "self_version (output_text t s) = self_version s"
  "self_buildnum (output_text t s) = self_buildnum s"
  "self_available_versions (output_text t s) = self_available_versions s"
  "self_prompt (output_text t s) = self_prompt s"
  "fileutil_path (output_text t s) = fileutil_path s"
  "fileutil_temp (output_text t s) = fileutil_temp s"
  "args_quiet (output_text t s) = args_quiet s"
  "sys_stdin (output_text t s) = sys_stdin s"
  "os_files (output_text t s) = os_files s"
  "os_faults (output_text t s) = os_faults s"
  "os_json (output_text t s) = os_json s"
  "os_tempname (output_text t s) = os_tempname s"
  "net_urlopen (output_text t s) = net_urlopen s"
  "net_data (output_text t s) = net_data s"
  "calls (output_text t s) = calls s"
  by (simp_all add: output_text_def print_line_def)

lemma print_line_fields [simp]:
  "self_version (print_line t s) = self_version s"
  "self_buildnum (print_line t s) = self_buildnum s"
  "self_available_versions (print_line t s) = self_available_versions s"
  "self_prompt (print_line t s) = self_prompt s"
  "fileutil_path (print_line t s) = fileutil_path s"
  "fileutil_temp (print_line t s) = fileutil_temp s"
  "args_quiet (print_line t s) = args_quiet s"
  "sys_stdin (print_line t s) = sys_stdin s"
  "os_files (print_line t s) = os_files s"
  "os_faults (print_line t s) = os_faults s"
  "os_json (print_line t s) = os_json s"
  "os_tempname (print_line t s) = os_tempname s"
  "net_urlopen (print_line t s) = net_urlopen s"
  "net_data (print_line t s) = net_data s"
  "calls (print_line t s) = calls s"
  by (simp_all add: print_line_def)

lemma print_lines_fields [simp]:
  "self_version (print_lines ts s) = self_version s"
  "self_buildnum (print_lines ts s) = self_buildnum s"
  "self_available_versions (print_lines ts s) = self_available_versions s"
  "self_prompt (print_lines ts s) = self_prompt s"
  "fileutil_path (print_lines ts s) = fileutil_path s"
  "fileutil_temp (print_lines ts s) = fileutil_temp s"
  "args_quiet (print_lines ts s) = args_quiet s"
  "sys_stdin (print_lines ts s) = sys_stdin s"
  "os_files (print_lines ts s) = os_files s"
  "os_faults (print_lines ts s) = os_faults s"
  "os_json (print_lines ts s) = os_json s"
  "os_tempname (print_lines ts s) = os_tempname s"
  "net_urlopen (print_lines ts s) = net_urlopen s"
  "net_data (print_lines ts s) = net_data s"
  "calls (print_lines ts s) = calls s"
  by (simp_all add: print_lines_eq)

lemma error_report_fields [simp]:
  "self_version (error_report e n s) = self_version s"
  "self_buildnum (error_report e n s) = self_buildnum s"
  "self_available_versions (error_report e n s) = self_available_versions s"
  "self_prompt (error_report e n s) = self_prompt s"
  "fileutil_path (error_report e n s) = fileutil_path s"
  "fileutil_temp (error_report e n s) = fileutil_temp s"
  "args_quiet (error_report e n s) = args_quiet s"
  "sys_stdin (error_report e n s) = sys_stdin s"
  "os_files (error_report e n s) = os_files s"
  "os_faults (error_report e n s) = os_faults s"
  "os_json (error_report e n s) = os_json s"
  "os_tempname (error_report e n s) = os_tempname s"
  "net_urlopen (error_report e n s) = net_urlopen s"
  "net_data (error_report e n s) = net_data s"
  "calls (error_report e n s) = calls s"
  by (simp_all add: error_report_def)

lemma record_call_fields [simp]:
  "self_version (record_call c s) = self_version s"
  "self_buildnum (record_call c s) = self_buildnum s"
  "self_available_versions (record_call c s) = self_available_versions s"
  "self_prompt (record_call c s) = self_prompt s"
  "fileutil_path (record_call c s) = fileutil_path s"
  "fileutil_temp (record_call c s) = fileutil_temp s"
  "args_quiet (record_call c s) = args_quiet s"
  "sys_stdin (record_call c s) = sys_stdin s"
  "sys_stdout (record_call c s) = sys_stdout s"
  "os_files (record_call c s) = os_files s"
  "os_faults (record_call c s) = os_faults s"
  "os_json (record_call c s) = os_json s"
  "os_tempname (record_call c s) = os_tempname s"
  "net_urlopen (record_call c s) = net_urlopen s"
  "net_data (record_call c s) = net_data s"
  "calls (record_call c s) = calls s @ [c]"
  by (simp_all add: record_call_def)

lemma calls_url_report [simp]: "calls (url_report p s) = calls s"
  by (simp add: url_report_def)

lemma str_int_200: "str_int 200 = ''200''"
  by code_simp

lemma str_int_205: "str_int 205 = ''205''"
  by code_simp

text \<open>More output: only standard output differs, by a suffix.\<close>

lemma more_output_refl [simp]: "more_output s s"
  unfolding more_output_def by (rule exI [of _ "[]"]) simp

lemma more_output_trans:
  "more_output s s' \<Longrightarrow> more_output s' s'' \<Longrightarrow> more_output s s''"
  unfolding more_output_def by (elim exE, rule_tac x = "new @ newa" in exI) simp

lemma more_output_appended:
  "more_output s (s\<lparr>sys_stdout := sys_stdout s @ new\<rparr>)"
  unfolding more_output_def by blast

lemma more_output_output_text [simp]:
  "more_output s s' \<Longrightarrow> more_output s (output_text x s')"
  by (erule more_output_trans) (simp add: output_text_eq more_output_appended)

lemma more_output_print_line [simp]:
  "more_output s s' \<Longrightarrow> more_output s (print_line x s')"
  by (erule more_output_trans) (simp add: print_line_def more_output_appended)

lemma more_output_print_lines [simp]:
  "more_output s s' \<Longrightarrow> more_output s (print_lines xs s')"
  by (erule more_output_trans) (simp add: print_lines_eq more_output_appended)

lemma more_output_error_report [simp]:
  "more_output s s' \<Longrightarrow> more_output s (error_report e n s')"
  by (erule more_output_trans) (simp add: error_report_def more_output_appended)

lemma more_output_fields:
  assumes "more_output s s'"
  shows "self_version s' = self_version s" "self_buildnum s' = self_buildnum s"
    "self_available_versions s' = self_available_versions s" "self_prompt s' = self_prompt s"
    "fileutil_path s' = fileutil_path s" "fileutil_temp s' = fileutil_temp s"
    "args_quiet s' = args_quiet s" "sys_stdin s' = sys_stdin s" "os_files s' = os_files s"
    "os_faults s' = os_faults s" "os_json s' = os_json s" "os_tempname s' = os_tempname s"
    "net_urlopen s' = net_urlopen s" "net_data s' = net_data s" "calls s' = calls s"
  using assms by (auto simp: more_output_def)

lemma more_output_stdout:
  "more_output s s' \<Longrightarrow> \<exists>new. sys_stdout s' = sys_stdout s @ new"
  by (auto simp: more_output_def)

lemma emitted_append [simp]:
  "sys_stdout s' = sys_stdout s @ new \<Longrightarrow> emitted s s' = new"
  by (simp add: emitted_def)

text \<open>File operations do not read standard output.\<close>

lemma os_remove_stdout:
  "os_remove p (s\<lparr>sys_stdout := x\<rparr>)
     = (fst (os_remove p s), (snd (os_remove p s))\<lparr>sys_stdout := x\<rparr>)"
  by (simp add: os_remove_def Let_def os_call_def next_fault_def
           split: option.splits fault.splits list.splits)

lemma shutil_copyfile_stdout:
  "shutil_copyfile a b (s\<lparr>sys_stdout := x\<rparr>)
     = (fst (shutil_copyfile a b s), (snd (shutil_copyfile a b s))\<lparr>sys_stdout := x\<rparr>)"
  by (simp add: shutil_copyfile_def Let_def os_call_def next_fault_def
           split: option.splits fault.splits list.splits)

lemma os_remove_frame [simp]:
  "fileutil_temp (snd (os_remove p s)) = fileutil_temp s"
  "fileutil_path (snd (os_remove p s)) = fileutil_path s"
  "sys_stdout (snd (os_remove p s)) = sys_stdout s"
  "args_quiet (snd (os_remove p s)) = args_quiet s"
  "calls (snd (os_remove p s)) = calls s @ [Remove p]"
  "q \<noteq> p \<Longrightarrow> os_files (snd (os_remove p s)) q = os_files s q"
  by (simp_all add: os_remove_def Let_def os_call_def split: option.splits fault.splits)

lemma shutil_copyfile_frame [simp]:
  "fileutil_temp (snd (shutil_copyfile a b s)) = fileutil_temp s"
  "fileutil_path (snd (shutil_copyfile a b s)) = fileutil_path s"
  "sys_stdout (snd (shutil_copyfile a b s)) = sys_stdout s"
  "args_quiet (snd (shutil_copyfile a b s)) = args_quiet s"
  "calls (snd (shutil_copyfile a b s)) = calls s @ [Copyfile a b]"
  "q \<noteq> b \<Longrightarrow> os_files (snd (shutil_copyfile a b s)) q = os_files s q"
  by (simp_all add: shutil_copyfile_def Let_def os_call_def split: option.splits fault.splits)

lemma os_remove_more_output:
  assumes "more_output s s'"
  shows "fst (os_remove p s') = fst (os_remove p s)"
    and "more_output (snd (os_remove p s)) (snd (os_remove p s'))"
  using assms by (auto simp: more_output_def os_remove_stdout)

lemma shutil_copyfile_more_output:
  assumes "more_output s s'"
  shows "fst (shutil_copyfile a b s') = fst (shutil_copyfile a b s)"
    and "more_output (snd (shutil_copyfile a b s)) (snd (shutil_copyfile a b s'))"
  using assms by (auto simp: more_output_def shutil_copyfile_stdout)

lemma os_remove_failed:
  "fst (os_remove p s) = Inl e \<Longrightarrow> os_files (snd (os_remove p s)) = os_files s"
  by (auto simp: os_remove_def Let_def os_call_def split: option.splits fault.splits)

lemma shutil_copyfile_done:
  "fst (shutil_copyfile a b s) = Inr u \<Longrightarrow>
     a \<noteq> b \<and> os_files s a \<noteq> None \<and> os_files (snd (shutil_copyfile a b s)) b = os_files s a"
  by (auto simp: shutil_copyfile_def Let_def os_call_def split: option.splits fault.splits if_splits)

lemma shutil_copyfile_same:
  "os_files (snd (shutil_copyfile a a s)) = os_files s"
  by (simp add: shutil_copyfile_def Let_def os_call_def)

section \<open>Properties of the config reader\<close>

lemma load_config_absent:
  "os_files s (config_path config s) = None \<Longrightarrow> fst (load_config config s) = Inr (''0'', 0)"
  by (simp add: load_config_def Let_def)

lemma load_config_undecodable:
  "os_json s (config_path config s) = Inl e \<Longrightarrow> fst (load_config config s) = Inr (''0'', 0)"
  by (simp add: load_config_def Let_def)

lemma load_config_not_str:
  "os_json s (config_path config s) = Inr data
   \<Longrightarrow> subscript data ''currentVersion'' = Inr v
   \<Longrightarrow> \<forall>cur. v \<noteq> JStr cur
   \<Longrightarrow> fst (load_config config s) = Inr (''0'', 0)"
  by (cases v) (simp_all add: load_config_def Let_def)

lemma load_config_unparsed:
  "os_json s (config_path config s) = Inr data
   \<Longrightarrow> subscript data ''currentVersion'' = Inr (JStr cur)
   \<Longrightarrow> parse_current cur = Inl e
   \<Longrightarrow> fst (load_config config s) = Inr (''0'', 0)"
  by (simp add: load_config_def Let_def)

lemma parse_current_no_space:
  "CHR '' '' \<notin> set cur \<Longrightarrow> parse_current cur = Inl ValueError"
  by (simp add: parse_current_def split_space_1_def)

lemma parse_current_no_int:
  "py_int (split_dash_last (takeWhile (\<lambda>c. c \<noteq> CHR '' '') cur)) = Inl e
   \<Longrightarrow> \<exists>e'. parse_current cur = Inl e'"
  by (simp add: parse_current_def split_space_1_def)

lemma parse_current_build_205:
  "parse_current ''build-205 (MC: 1.16.5)'' = Inr (''1.16.5'', 205)"
  by code_simp

text \<open>
  Claim C7. When the configuration file exists, decodes to a JSON object and its field
  \<^verbatim>\<open>currentVersion\<close> holds the string \<^verbatim>\<open>build-205 (MC: 1.16.5)\<close>, \<open>load_config\<close>
  returns the pair of the version \<^verbatim>\<open>1.16.5\<close> and the build \<open>205\<close>, an integer; this holds
  for a given path and for the default one, in quiet mode or not.
\<close>

theorem load_config_build_205:
  assumes "os_files s (config_path config s) \<noteq> None"
    and "os_json s (config_path config s) = Inr data"
    and "subscript data ''currentVersion'' = Inr (JStr ''build-205 (MC: 1.16.5)'')"
  shows "fst (load_config config s) = Inr (''1.16.5'', 205)"
  using assms
  by (simp add: load_config_def Let_def parse_current_build_205)

theorem load_config_build_205_witness:
  "fst (load_config None
         (start_process
            \<lparr>os_files := [''server/version_history.json'' \<mapsto> []],
             os_json := (\<lambda>p. Inr (JObj [(''currentVersion'',
                                          JStr ''build-205 (MC: 1.16.5)'')]))\<rparr>))
   = Inr (''1.16.5'', 205)"
  using load_config_build_205
          [of "start_process
                 \<lparr>os_files := [''server/version_history.json'' \<mapsto> []],
                  os_json := (\<lambda>p. Inr (JObj [(''currentVersion'',
                                               JStr ''build-205 (MC: 1.16.5)'')]))\<rparr>"
              None "JObj [(''currentVersion'', JStr ''build-205 (MC: 1.16.5)'')]"]
  by (simp add: start_process_def config_path_def dirname_def path_join_def
                rstrip_slash_def config_default_def subscript_def)

text \<open>
  The inputs for which \<open>load_config\<close> does return the sentinel \<open>(''0'', 0)\<close>: the file is
  absent, opening or decoding it raises, the field \<^verbatim>\<open>currentVersion\<close> is there and is not
  a string, or it is a string that has no space or whose first word does not end, after
  its last dash, in an integer literal.
\<close>

lemma load_config_sentinel_cases:
  assumes "os_files s (config_path config s) = None
     \<or> (\<exists>e. os_json s (config_path config s) = Inl e)
     \<or> (\<exists>data v. os_json s (config_path config s) = Inr data
           \<and> subscript data ''currentVersion'' = Inr v
           \<and> (\<forall>cur. v = JStr cur \<longrightarrow>
                  CHR '' '' \<notin> set cur
                  \<or> (\<exists>e. py_int (split_dash_last (takeWhile (\<lambda>c. c \<noteq> CHR '' '') cur))
                           = Inl e)))"
  shows "fst (load_config config s) = Inr (''0'', 0)"
  using assms
proof (elim disjE exE conjE, goal_cases)
  case 1
  then show ?case by (rule load_config_absent)
next
  case (2 e)
  then show ?case by (rule load_config_undecodable)
next
  case (3 data v)
  show ?case
  proof (cases "\<exists>cur. v = JStr cur")
    case False
    with 3(1,2) show ?thesis by (simp add: load_config_not_str)
  next
    case True
    then obtain cur where v: "v = JStr cur" by blast
    with 3(3) have "\<exists>e'. parse_current cur = Inl e'"
      using parse_current_no_space parse_current_no_int by blast
    then obtain e' where "parse_current cur = Inl e'" by blast
    with 3(1,2) v show ?thesis by (simp add: load_config_unparsed)
  qed
qed

lemma load_config_sentinel_examples:
  "fst (load_config None start_process) = Inr (''0'', 0)
   \<and> fst (load_config (Some ''v.json'')
            (start_process\<lparr>os_files := [''v.json'' \<mapsto> []]\<rparr>)) = Inr (''0'', 0)
   \<and> fst (load_config (Some ''v.json'')
            (start_process
               \<lparr>os_files := [''v.json'' \<mapsto> []],
                os_json := (\<lambda>p. Inr (JObj [(''currentVersion'', JInt 205)]))\<rparr>))
       = Inr (''0'', 0)
   \<and> fst (load_config (Some ''v.json'')
            (start_process
               \<lparr>os_files := [''v.json'' \<mapsto> []],
                os_json := (\<lambda>p. Inr (JObj [(''currentVersion'', JStr ''latest'')]))\<rparr>))
       = Inr (''0'', 0)"
proof -
  have a: "fst (load_config None start_process) = Inr (''0'', 0)"
    using load_config_sentinel_cases [of start_process None]
    by (simp add: start_process_def)
  have b: "fst (load_config (Some ''v.json'')
                  (start_process\<lparr>os_files := [''v.json'' \<mapsto> []]\<rparr>)) = Inr (''0'', 0)"
    using load_config_sentinel_cases
            [of "start_process\<lparr>os_files := [''v.json'' \<mapsto> []]\<rparr>" "Some ''v.json''"]
    by (simp add: start_process_def)
  have c: "fst (load_config (Some ''v.json'')
                  (start_process
                     \<lparr>os_files := [''v.json'' \<mapsto> []],
                      os_json := (\<lambda>p. Inr (JObj [(''currentVersion'', JInt 205)]))\<rparr>))
           = Inr (''0'', 0)"
    using load_config_sentinel_cases
            [of "start_process
                   \<lparr>os_files := [''v.json'' \<mapsto> []],
                    os_json := (\<lambda>p. Inr (JObj [(''currentVersion'', JInt 205)]))\<rparr>"
                "Some ''v.json''"]
    by (simp add: start_process_def config_path_def subscript_def)
  have d: "fst (load_config (Some ''v.json'')
                  (start_process
                     \<lparr>os_files := [''v.json'' \<mapsto> []],
                      os_json := (\<lambda>p. Inr (JObj [(''currentVersion'', JStr ''latest'')]))\<rparr>))
           = Inr (''0'', 0)"
    using load_config_sentinel_cases
            [of "start_process
                   \<lparr>os_files := [''v.json'' \<mapsto> []],
                    os_json := (\<lambda>p. Inr (JObj [(''currentVersion'', JStr ''latest'')]))\<rparr>"
                "Some ''v.json''"]
    by (simp add: start_process_def config_path_def subscript_def)
  from a b c d show ?thesis by simp
qed

text \<open>The string of claim C7 has the shape the spec gives.\<close>

lemma spec_pattern_build_205: "spec_pattern ''build-205 (MC: 1.16.5)''"
  by code_simp

text \<open>
  Claim C2 does not hold of the code. The configuration file exists and holds the JSON
  document \<^verbatim>\<open>{}\<close>, which lacks the field \<^verbatim>\<open>currentVersion\<close>: the subscript at line 414
  stands between the two \<^verbatim>\<open>try\<close> blocks, inside neither, and its \<^verbatim>\<open>KeyError\<close> escapes
  \<open>load_config\<close>, where the claim has the sentinel returned and no exception.
\<close>

theorem load_config_missing_field_raises:
  "fst (load_config None
         (start_process
            \<lparr>os_files := [''server/version_history.json'' \<mapsto> []],
             os_json := (\<lambda>p. Inr (JObj []))\<rparr>))
   = Inl KeyError"
  by code_simp

text \<open>The same holds of every existing file whose document has no such field, and of a
  document that is no object (\<^verbatim>\<open>TypeError\<close>).\<close>

lemma load_config_subscript_raises:
  assumes "os_files s (config_path config s) \<noteq> None"
    and "os_json s (config_path config s) = Inr data"
    and "subscript data ''currentVersion'' = Inl e"
  shows "fst (load_config config s) = Inl e"
  using assms by (simp add: load_config_def Let_def)

lemma load_config_list_document_raises:
  "fst (load_config None
         (start_process
            \<lparr>os_files := [''server/version_history.json'' \<mapsto> []],
             os_json := (\<lambda>p. Inr (JArr []))\<rparr>))
   = Inl TypeError"
  by code_simp

text \<open>
  A second departure, from the docstring of \<open>load_config\<close> too (\<^emph>\<open>we only load version info
  if it's in the official format\<close>): the string \<^verbatim>\<open>nonsense-7 whatever\<close> does not have the
  shape \<^verbatim>\<open>build-<buildnum> (MC: <version>)\<close>, and \<open>load_config\<close> returns \<open>(''ve'', 7)\<close> for it,
  not the sentinel.
\<close>

lemma load_config_lenient_parse:
  "\<not> spec_pattern ''nonsense-7 whatever''
   \<and> fst (load_config None
            (start_process
               \<lparr>os_files := [''server/version_history.json'' \<mapsto> []],
                os_json := (\<lambda>p. Inr (JObj [(''currentVersion'',
                                             JStr ''nonsense-7 whatever'')]))\<rparr>))
       = Inr (''ve'', 7)"
  by code_simp

section \<open>Properties of \<^verbatim>\<open>check\<close>\<close>

lemma get_versions_unreachable:
  "net_urlopen s base_url = Inl e \<Longrightarrow>
   get_versions s =
     (Inr None,
      error_report e True
        (url_report ''API Fetch Operation''
           (record_call (Urlopen base_url)
              (output_text ''  > Fetching and decoding version info...'' s))))"
  by (simp add: get_versions_def api_get_def Let_def)

lemma get_versions_payload:
  "net_urlopen s base_url = Inr d \<Longrightarrow> decoded d = Inr (Listing xs) \<Longrightarrow>
   get_versions s =
     (Inr (Some xs),
      output_text ''  > Done fetching version information!''
        (record_call (Urlopen base_url)
           (output_text ''  > Fetching and decoding version info...'' s)))"
  by (simp add: get_versions_def api_get_def Let_def)

lemma get_buildnums_unreachable:
  "net_urlopen s (base_url @ ''/'' @ v) = Inl e \<Longrightarrow>
   get_buildnums v s =
     (Inr None,
      error_report e True
        (url_report ''API Fetch Operation''
           (record_call (Urlopen (base_url @ ''/'' @ v))
              (output_text ''  > Fetching and decoding build info...'' s))))"
  by (simp add: get_buildnums_def api_get_def Let_def)

lemma get_buildnums_payload:
  "net_urlopen s (base_url @ ''/'' @ v) = Inr d \<Longrightarrow> decoded d = Inr (Listing xs) \<Longrightarrow>
   get_buildnums v s =
     (Inr (Some xs),
      output_text ''  > Done fetching build info!''
        (record_call (Urlopen (base_url @ ''/'' @ v))
           (output_text ''  > Fetching and decoding build info...'' s)))"
  by (simp add: get_buildnums_def api_get_def Let_def)

lemma check_new_version:
  assumes "net_urlopen s base_url = Inr d" "decoded d = Inr (Listing (ver0 # vers))" "ver0 \<noteq> self_version s"
  shows "fst (check s) = Inr True" "performed s (snd (check s)) = [Urlopen base_url]"
  using assms
  by (simp_all add: check_def Let_def get_versions_payload performed_def)

lemma check_same_version:
  assumes "net_urlopen s base_url = Inr d" "decoded d = Inr (Listing (self_version s # vers))"
    "net_urlopen s (base_url @ ''/'' @ self_version s) = Inr d'" "decoded d' = Inr (Listing (build0 # builds))"
  shows "fst (check s) = Inr (build0 \<noteq> str_build (self_buildnum s))"
    "performed s (snd (check s)) = [Urlopen base_url, Urlopen (base_url @ ''/'' @ self_version s)]"
  using assms
  by (simp_all add: check_def Let_def get_versions_payload get_buildnums_payload performed_def)


lemma get_versions_garbled:
  "net_urlopen s base_url = Inr d \<Longrightarrow> decoded d = Inl e \<Longrightarrow>
   get_versions s =
     (Inl e,
      record_call (Urlopen base_url)
        (output_text ''  > Fetching and decoding version info...'' s))"
  by (simp add: get_versions_def api_get_def Let_def)

lemma get_versions_lacking:
  "net_urlopen s base_url = Inr d \<Longrightarrow> decoded d = Inr (Lacking e) \<Longrightarrow>
   get_versions s =
     (Inl e,
      output_text ''  > Done fetching version information!''
        (record_call (Urlopen base_url)
           (output_text ''  > Fetching and decoding version info...'' s)))"
  by (simp add: get_versions_def api_get_def Let_def)

lemma get_buildnums_garbled:
  "net_urlopen s (base_url @ ''/'' @ v) = Inr d \<Longrightarrow> decoded d = Inl e \<Longrightarrow>
   get_buildnums v s =
     (Inl e,
      record_call (Urlopen (base_url @ ''/'' @ v))
        (output_text ''  > Fetching and decoding build info...'' s))"
  by (simp add: get_buildnums_def api_get_def Let_def)

lemma get_buildnums_lacking:
  "net_urlopen s (base_url @ ''/'' @ v) = Inr d \<Longrightarrow> decoded d = Inr (Lacking e) \<Longrightarrow>
   get_buildnums v s =
     (Inl e,
      output_text ''  > Done fetching build info!''
        (record_call (Urlopen (base_url @ ''/'' @ v))
           (output_text ''  > Fetching and decoding build info...'' s)))"
  by (simp add: get_buildnums_def api_get_def Let_def)

lemma check_versions_unreachable:
  assumes "net_urlopen s base_url = Inl e"
  shows "fst (check s) = Inr False" "ErrorReport e True \<in> set (emitted s (snd (check s)))"
  using assms
  by (simp_all add: check_def Let_def get_versions_unreachable emitted_def error_report_def
                    url_report_def print_lines_eq output_text_eq record_call_def)

lemma check_builds_unreachable:
  assumes "net_urlopen s base_url = Inr d" "decoded d = Inr (Listing (self_version s # vers))"
    "net_urlopen s (base_url @ ''/'' @ self_version s) = Inl e"
  shows "fst (check s) = Inr False" "ErrorReport e True \<in> set (emitted s (snd (check s)))"
  using assms
  by (simp_all add: check_def Let_def get_versions_payload get_buildnums_unreachable
                    emitted_def error_report_def
                    url_report_def print_lines_eq output_text_eq record_call_def)

lemma check_true_fetched:
  assumes "fst (check s) = Inr True" "Urlopen u \<in> set (performed s (snd (check s)))"
  shows "\<exists>d. net_urlopen s u = Inr d"
proof (cases "net_urlopen s base_url")
  case (Inl e)
  with assms(1) show ?thesis by (simp add: check_versions_unreachable)
next
  case (Inr d)
  note d = this
  show ?thesis
  proof (cases "decoded d")
    case (Inl e)
    with d assms(1) show ?thesis
      by (simp add: check_def Let_def get_versions_garbled)
  next
    case (Inr doc)
    note doc = this
    show ?thesis
    proof (cases doc)
      case (Lacking e)
      with d doc assms(1) show ?thesis
        by (simp add: check_def Let_def get_versions_lacking)
    next
      case (Listing vs)
      note vs = this
      show ?thesis
      proof (cases vs)
        case Nil
        with d doc vs assms(1) show ?thesis
          by (simp add: check_def Let_def get_versions_payload)
      next
        case (Cons ver0 vers)
        note c = this
        show ?thesis
        proof (cases "ver0 = self_version s")
          case False
          with d doc vs c have "performed s (snd (check s)) = [Urlopen base_url]"
            by (simp add: check_new_version)
          with assms(2) d show ?thesis by simp
        next
          case True
          note same = this
          show ?thesis
          proof (cases "net_urlopen s (base_url @ ''/'' @ self_version s)")
            case (Inl e)
            with d doc vs c same assms(1) show ?thesis
              by (simp add: check_builds_unreachable)
          next
            case (Inr d')
            note d' = this
            show ?thesis
            proof (cases "decoded d'")
              case (Inl e)
              with d doc vs c same d' assms(1) show ?thesis
                by (simp add: check_def Let_def get_versions_payload get_buildnums_garbled)
            next
              case (Inr doc')
              note doc' = this
              show ?thesis
              proof (cases doc')
                case (Lacking e)
                with d doc vs c same d' doc' assms(1) show ?thesis
                  by (simp add: check_def Let_def get_versions_payload get_buildnums_lacking)
              next
                case (Listing bs)
                note bs = this
                show ?thesis
                proof (cases bs)
                  case Nil
                  with d doc vs c same d' doc' bs assms(1) show ?thesis
                    by (simp add: check_def Let_def get_versions_payload
                                  get_buildnums_payload)
                next
                  case (Cons b0 bs')
                  with d doc vs c same d' doc' bs
                  have "performed s (snd (check s))
                        = [Urlopen base_url, Urlopen (base_url @ ''/'' @ self_version s)]"
                    by (simp add: check_same_version)
                  with assms(2) d d' show ?thesis by auto
                qed
              qed
            qed
          qed
        qed
      qed
    qed
  qed
qed

text \<open>
  Claim C3. When the list of versions arrives and its first entry differs from the
  installed version, \<open>check\<close> returns \<open>True\<close> and the list of versions is the only request
  it made: no builds are fetched or compared. When the first entry is the installed
  version and the list of builds of that version arrives, \<open>check\<close> returns \<open>True\<close> exactly
  when the first build differs from the installed build (compared as text, as line 736
  does with \<^verbatim>\<open>str(self.buildnum)\<close>), and \<open>False\<close> when both match.
\<close>

theorem check_version_then_build:
  assumes "net_urlopen s base_url = Inr d" and "decoded d = Inr (Listing (ver0 # vers))"
  shows "(ver0 \<noteq> self_version s \<longrightarrow>
            fst (check s) = Inr True \<and> performed s (snd (check s)) = [Urlopen base_url])
       \<and> (ver0 = self_version s \<longrightarrow>
            (\<forall>d' build0 builds.
               net_urlopen s (base_url @ ''/'' @ self_version s) = Inr d'
               \<longrightarrow> decoded d' = Inr (Listing (build0 # builds))
               \<longrightarrow> fst (check s) = Inr (build0 \<noteq> str_build (self_buildnum s))))"
  using assms check_new_version [of s d ver0 vers] check_same_version(1) [of s d vers]
  by blast

theorem check_version_then_build_witness:
  "fst (check installed_200) = Inr True
   \<and> fst (check (installed_200\<lparr>self_buildnum := BInt 205\<rparr>)) = Inr False
   \<and> fst (check (installed_200\<lparr>self_version := ''1.16.4''\<rparr>)) = Inr True
   \<and> performed (installed_200\<lparr>self_version := ''1.16.4''\<rparr>)
        (snd (check (installed_200\<lparr>self_version := ''1.16.4''\<rparr>))) = [Urlopen base_url]"
proof -
  have a: "fst (check installed_200) = Inr True"
    using check_version_then_build
            [of installed_200 "idle_response\<lparr>decoded := Inr (Listing [''1.16.5'', ''1.16.4''])\<rparr>"
                "''1.16.5''" "[''1.16.4'']"]
    by (simp add: installed_200_def start_process_def paper_api_def base_url_def
                  idle_response_def str_build_def str_int_200)
  have b: "fst (check (installed_200\<lparr>self_buildnum := BInt 205\<rparr>)) = Inr False"
    using check_version_then_build
            [of "installed_200\<lparr>self_buildnum := BInt 205\<rparr>"
                "idle_response\<lparr>decoded := Inr (Listing [''1.16.5'', ''1.16.4''])\<rparr>"
                "''1.16.5''" "[''1.16.4'']"]
    by (simp add: installed_200_def start_process_def paper_api_def base_url_def
                  idle_response_def str_build_def str_int_205)
  have c: "fst (check (installed_200\<lparr>self_version := ''1.16.4''\<rparr>)) = Inr True
           \<and> performed (installed_200\<lparr>self_version := ''1.16.4''\<rparr>)
                (snd (check (installed_200\<lparr>self_version := ''1.16.4''\<rparr>)))
               = [Urlopen base_url]"
    using check_version_then_build
            [of "installed_200\<lparr>self_version := ''1.16.4''\<rparr>"
                "idle_response\<lparr>decoded := Inr (Listing [''1.16.5'', ''1.16.4''])\<rparr>"
                "''1.16.5''" "[''1.16.4'']"]
    by (simp add: installed_200_def start_process_def paper_api_def)
  from a b c show ?thesis by blast
qed

text \<open>
  What holds of claim C4: when \<^verbatim>\<open>urlopen\<close> raises, for the list of versions or for the
  list of builds after the versions matched, \<open>check\<close> returns \<open>False\<close> and the error report
  with the network details is on standard output; and whenever \<open>check\<close> returns \<open>True\<close>,
  every request it made was answered.
\<close>

lemma check_urlopen_failure:
  "(net_urlopen s base_url = Inl e
      \<or> (\<exists>d vers. net_urlopen s base_url = Inr d
            \<and> decoded d = Inr (Listing (self_version s # vers))
            \<and> net_urlopen s (base_url @ ''/'' @ self_version s) = Inl e)
    \<longrightarrow> fst (check s) = Inr False \<and> ErrorReport e True \<in> set (emitted s (snd (check s))))
   \<and> (fst (check s) = Inr True
        \<longrightarrow> (\<forall>u. Urlopen u \<in> set (performed s (snd (check s)))
                  \<longrightarrow> (\<exists>d. net_urlopen s u = Inr d)))"
  using check_versions_unreachable [of s e] check_builds_unreachable [of s _ _ e]
        check_true_fetched [of s]
  by blast

text \<open>The fetch can also fail after \<^verbatim>\<open>urlopen\<close> returned: \<^verbatim>\<open>data.read()\<close> raises when the
  connection breaks, \<^verbatim>\<open>json.loads\<close> when the body is cut short. Lines 314 and 342 stand
  outside any \<^verbatim>\<open>try\<close> (the reads of \<open>download\<close> are guarded), so the exception escapes
  \<open>check\<close>, which neither returns \<open>False\<close> nor reports anything.\<close>

lemma check_read_failure:
  assumes "net_urlopen s base_url = Inr d"
    and "decoded d = Inl e
         \<or> (\<exists>vers d'. decoded d = Inr (Listing (self_version s # vers))
               \<and> net_urlopen s (base_url @ ''/'' @ self_version s) = Inr d'
               \<and> decoded d' = Inl e)"
  shows "fst (check s) = Inl e \<and> error_reports (emitted s (snd (check s))) = []"
  using assms
  by (auto simp: check_def Let_def get_versions_garbled get_versions_payload
                 get_buildnums_garbled emitted_def error_reports_def output_text_eq)

text \<open>
  Claim C4 does not hold of the code: a run in which the list of versions is requested,
  the response arrives and reading it raises \<^verbatim>\<open>OSError\<close>. \<open>check\<close> raises \<^verbatim>\<open>OSError\<close>
  and no error report is printed.
\<close>

theorem check_read_failure_escapes:
  "fst (check (start_process
                 \<lparr>net_urlopen := (\<lambda>u. Inr (idle_response\<lparr>decoded := Inl OSError\<rparr>))\<rparr>))
     = Inl OSError
   \<and> error_reports
        (emitted (start_process
                    \<lparr>net_urlopen := (\<lambda>u. Inr (idle_response\<lparr>decoded := Inl OSError\<rparr>))\<rparr>)
           (snd (check (start_process
                          \<lparr>net_urlopen := (\<lambda>u. Inr (idle_response\<lparr>decoded := Inl OSError\<rparr>))\<rparr>))))
       = []"
  using check_read_failure
          [of "start_process
                 \<lparr>net_urlopen := (\<lambda>u. Inr (idle_response\<lparr>decoded := Inl OSError\<rparr>))\<rparr>"
              "idle_response\<lparr>decoded := Inl OSError\<rparr>" OSError]
  by (simp add: start_process_def)

section \<open>Properties of \<^verbatim>\<open>_select\<close>\<close>




text \<open>The same token with candidates but an empty cached list of versions: the message
  of line 772 reads \<^verbatim>\<open>self._available_versions[0]\<close>.\<close>

lemma select_empty_cache_raises:
  "fst (select ''latest'' [''205''] ''latest'' ''build'' start_process) = Inl IndexError"
  by (simp add: select_def Let_def start_process_def)

section \<open>Properties of \<^verbatim>\<open>install\<close>\<close>

lemma copy_error_stdout [simp]:
  "copy_error t (s\<lparr>sys_stdout := x\<rparr>) = copy_error t s"
  by (simp add: copy_error_def shutil_copyfile_stdout)

lemma recovery_error_stdout [simp]:
  "recovery_error t (s\<lparr>sys_stdout := x\<rparr>) = recovery_error t s"
  by (simp add: recovery_error_def Let_def os_remove_stdout split: sum.splits)

lemma failed_step_stdout:
  "failed_step t (s\<lparr>sys_stdout := x\<rparr>)
     = map_option (\<lambda>(e, sf). (e, sf\<lparr>sys_stdout := x\<rparr>)) (failed_step t s)"
  by (simp add: failed_step_def Let_def os_remove_stdout shutil_copyfile_stdout
           split: sum.splits)

lemma recovery_outcome_prefix:
  assumes "recovery_outcome err orig p s' new"
    and "Print ''# Critical error during recovery process!'' \<notin> set pre"
    and "Print (CHR 0x0A # ''Recovery process complete!'') \<notin> set pre"
  shows "recovery_outcome err orig p s' (pre @ new)"
  using assms by (auto simp: recovery_outcome_def split: option.splits)

lemma recover_copy_outcome:
  assumes "fileutil_temp s = Some t" "os_files s (path_join t ''backup'') = Some orig"
  shows "\<exists>new. sys_stdout (snd (recover_copy s)) = sys_stdout s @ new
           \<and> (\<exists>r. fst (recover_copy s) = Inr r)
           \<and> recovery_outcome (copy_error t s) orig (fileutil_path s) (snd (recover_copy s)) new"
proof -
  define c where "c = shutil_copyfile (path_join t ''backup'') (fileutil_path s) s"
  define line where "line = ''# Copying backup file['' @ path_join t ''backup''
                                @ ''] to server root directory['' @ fileutil_path s @ '']...''"
  define s2 where "s2 = (snd c)\<lparr>sys_stdout := sys_stdout s @ [Print line]\<rparr>"
  have rc: "recover_copy s =
      (case fst c of
         Inl e \<Rightarrow> (Inr False, critical_recovery e s2)
       | Inr u \<Rightarrow>
           (Inr True,
            print_lines
              [CHR 0x0A # ''Recovery process complete!'',
               ''Your file has been successfully recovered.'',
               ''Please debug the situation, and figure out why the problem occurred,'',
               ''Before re-trying the update process.''] s2))"
    using assms(1)
    by (simp add: recover_copy_def Let_def print_line_def shutil_copyfile_stdout
                  c_def [symmetric] line_def s2_def split: sum.splits)
  have ce: "copy_error t s = (case fst c of Inl e \<Rightarrow> Some e | Inr u \<Rightarrow> None)"
    by (simp add: copy_error_def c_def)
  have noline: "Print line \<noteq> Print ''# Critical error during recovery process!''"
    "Print line \<noteq> Print (CHR 0x0A # ''Recovery process complete!'')"
    by (simp_all add: line_def)
  show ?thesis
  proof (cases "fst c")
    case (Inl e)
    with rc ce noline show ?thesis
      by (auto simp: critical_recovery_def print_lines_eq print_line_def error_report_def
                     recovery_outcome_def s2_def c_def)
  next
    case (Inr u)
    from shutil_copyfile_done [of "path_join t ''backup''" "fileutil_path s" s u] Inr assms(2)
    have "os_files (snd c) (fileutil_path s) = Some orig"
      by (simp add: c_def)
    with Inr rc ce noline show ?thesis
      by (auto simp: print_lines_eq recovery_outcome_def s2_def c_def)
  qed
qed

lemma recover_backup_outcome:
  assumes "fileutil_temp s = Some t" "os_files s (path_join t ''backup'') = Some orig"
    and "fileutil_path s \<noteq> path_join t ''backup''"
  shows "\<exists>new. sys_stdout (snd (recover_backup s)) = sys_stdout s @ new
           \<and> (\<exists>r. fst (recover_backup s) = Inr r)
           \<and> recovery_outcome (recovery_error t s) orig (fileutil_path s)
                (snd (recover_backup s)) new"
proof -
  define msgs where "msgs =
                 [banner,
                  CHR 0x0A # ''> !ATTENTION! <'',
                  ''A failure has occurred during the installation process.'',
                  ''I'm sure you can see the error information above.'',
                  ''This script will attempt to recover your old installation.'',
                  ''If this operation fails, check the github page for more info: ''
                    @ ''https://github.com/Owen-Cochell/PaperMC-Update'',
                  ''# Deleting Corrupted temporary File...'']"
  define s1 where "s1 = print_lines msgs s"
  define r where "r = fst (os_remove (fileutil_path s) s)"
  define s2 where "s2 = (snd (os_remove (fileutil_path s) s))
                          \<lparr>sys_stdout := sys_stdout s @ map Print msgs\<rparr>"
  have nomsg: "Print ''# Critical error during recovery process!'' \<notin> set (map Print msgs)"
    "Print (CHR 0x0A # ''Recovery process complete!'') \<notin> set (map Print msgs)"
    by (simp_all add: msgs_def banner_def)
  have rm: "os_remove (fileutil_path s1) s1 = (r, s2)"
    by (simp add: s1_def print_lines_eq os_remove_stdout r_def s2_def)
  have s2_facts: "sys_stdout s2 = sys_stdout s @ map Print msgs" "fileutil_temp s2 = Some t"
    "fileutil_path s2 = fileutil_path s" "os_files s2 (path_join t ''backup'') = Some orig"
    using assms by (simp_all add: s2_def)
  have re: "recovery_error t s =
      (case r of
         Inl e \<Rightarrow> if e = FileNotFoundError then copy_error t s2 else Some e
       | Inr u \<Rightarrow> copy_error t s2)"
    by (simp add: recovery_error_def Let_def r_def s2_def split: sum.splits)
  have rb: "recover_backup s =
      (case r of
         Inl e \<Rightarrow> if e = FileNotFoundError
                  then recover_copy (print_line ''# File not found. Continuing operation...'' s2)
                  else (Inr False, critical_recovery e s2)
       | Inr u \<Rightarrow> recover_copy s2)"
    unfolding recover_backup_def Let_def msgs_def [symmetric] s1_def [symmetric] rm
    by (cases r) simp_all
  show ?thesis
  proof (cases r)
    case (Inr u)
    from recover_copy_outcome [of s2 t orig] s2_facts obtain new where
      n: "sys_stdout (snd (recover_copy s2)) = sys_stdout s2 @ new"
         "\<exists>r. fst (recover_copy s2) = Inr r"
         "recovery_outcome (copy_error t s2) orig (fileutil_path s) (snd (recover_copy s2)) new"
      by auto
    from recovery_outcome_prefix [OF n(3) nomsg] n(1,2) s2_facts(1) rb re Inr
    show ?thesis by (intro exI [of _ "map Print msgs @ new"]) simp
  next
    case (Inl e)
    show ?thesis
    proof (cases "e = FileNotFoundError")
      case True
      define s3 where "s3 = print_line ''# File not found. Continuing operation...'' s2"
      define pre where "pre = map Print msgs @ [Print ''# File not found. Continuing operation...'']"
      have nopre: "Print ''# Critical error during recovery process!'' \<notin> set pre"
        "Print (CHR 0x0A # ''Recovery process complete!'') \<notin> set pre"
        using nomsg by (simp_all add: pre_def)
      have s3_facts: "sys_stdout s3 = sys_stdout s @ pre" "fileutil_temp s3 = Some t"
        "fileutil_path s3 = fileutil_path s" "os_files s3 (path_join t ''backup'') = Some orig"
        "copy_error t s3 = copy_error t s2"
        using s2_facts by (simp_all add: s3_def print_line_def pre_def)
      from recover_copy_outcome [of s3 t orig] s3_facts obtain new where
        n: "sys_stdout (snd (recover_copy s3)) = sys_stdout s3 @ new"
           "\<exists>r. fst (recover_copy s3) = Inr r"
           "recovery_outcome (copy_error t s2) orig (fileutil_path s) (snd (recover_copy s3)) new"
        by auto
      from recovery_outcome_prefix [OF n(3) nopre] n(1,2) s3_facts(1) rb re Inl True
      show ?thesis by (intro exI [of _ "pre @ new"]) (simp add: s3_def)
    next
      case False
      with rb re Inl s2_facts nomsg show ?thesis
        by (auto simp: critical_recovery_def print_lines_eq print_line_def error_report_def
                       recovery_outcome_def)
    qed
  qed
qed

lemma fail_and_recover_outcome:
  assumes "fileutil_temp s = Some t" "os_files s (path_join t ''backup'') = Some orig"
    and "fileutil_path s \<noteq> path_join t ''backup''"
  shows "\<exists>new. sys_stdout (snd (fail_and_recover point e s)) = sys_stdout s @ new
           \<and> fst (fail_and_recover point e s) = Inr False
           \<and> ErrorReport e False \<in> set new
           \<and> Print (''Fail point: '' @ point) \<in> set new
           \<and> recovery_outcome (recovery_error t s) orig (fileutil_path s)
                (snd (fail_and_recover point e s)) new"
proof -
  define msgs where "msgs = [CHR 0x0A # banner,
        ''> !ATTENTION! <'',
        ''An error occurred during the installation, and we can not continue.'',
        ''We will attempt to recover your previous installation(If applicable)'',
        ''Fail point: '' @ point,
        ''Detailed error info below:'']"
  define pre where "pre = map Print msgs @ [ErrorReport e False]"
  define s' where "s' = error_report e False (fail_install point s)"
  have nomsg: "Print ''# Critical error during recovery process!'' \<notin> set pre"
    "Print (CHR 0x0A # ''Recovery process complete!'') \<notin> set pre"
    "Print (''Fail point: '' @ point) \<in> set pre" "ErrorReport e False \<in> set pre"
    by (simp_all add: msgs_def banner_def pre_def)
  have s'_eq: "s' = s\<lparr>sys_stdout := sys_stdout s @ pre\<rparr>"
    by (simp add: s'_def error_report_def fail_install_def print_lines_eq msgs_def pre_def)
  have f: "fileutil_temp s' = Some t" "os_files s' (path_join t ''backup'') = Some orig"
    "fileutil_path s' \<noteq> path_join t ''backup''" "fileutil_path s' = fileutil_path s"
    "sys_stdout s' = sys_stdout s @ pre" "recovery_error t s' = recovery_error t s"
    using assms by (simp_all add: s'_eq)
  have fr: "fail_and_recover point e s =
      (case recover_backup s' of (Inl e', s'') \<Rightarrow> (Inl e', s'') | (Inr u, s'') \<Rightarrow> (Inr False, s''))"
    by (simp add: fail_and_recover_def s'_def)
  from recover_backup_outcome [OF f(1,2,3)] f(4,6) obtain new r where
    n: "sys_stdout (snd (recover_backup s')) = sys_stdout s' @ new"
     "fst (recover_backup s') = Inr r"
     "recovery_outcome (recovery_error t s) orig (fileutil_path s) (snd (recover_backup s')) new"
    by auto
  obtain s'' where rb: "recover_backup s' = (Inr r, s'')"
    using n(2) by (cases "recover_backup s'") auto
  have res: "fail_and_recover point e s = (Inr False, s'')"
    by (simp add: fr rb)
  have "sys_stdout s'' = sys_stdout s @ (pre @ new)"
    using n(1) rb f(5) by simp
  moreover have "recovery_outcome (recovery_error t s) orig (fileutil_path s) s'' (pre @ new)"
    using recovery_outcome_prefix [OF n(3) nomsg(1,2)] rb by simp
  ultimately show ?thesis
    using nomsg(3,4) unfolding res by (intro exI [of _ "pre @ new"]) simp
qed

lemma nested_output2:
  "output_text b (output_text a s)
     = s\<lparr>sys_stdout := sys_stdout s @ (if args_quiet s then [] else [Print a, Print b])\<rparr>"
  by (simp add: output_text_eq)

lemma nested_output3:
  "output_text c (output_text b (output_text a s))
     = s\<lparr>sys_stdout := sys_stdout s
           @ (if args_quiet s then [] else [Print a, Print b, Print c])\<rparr>"
  by (simp add: output_text_eq)

lemma backup_step_stdout:
  "backup_step (s\<lparr>sys_stdout := x\<rparr>)
     = (fst (backup_step s), (snd (backup_step s))\<lparr>sys_stdout := x\<rparr>)"
  by (simp add: backup_step_def shutil_copyfile_stdout split: option.splits)

lemma install_copy_in_failure:
  assumes "fileutil_temp s = Some t" "os_files s (path_join t ''backup'') = Some orig"
    and "fileutil_path s \<noteq> path_join t ''backup''"
    and "fst (shutil_copyfile (path_join t ''download_data'') (fileutil_path s) s) = Inl e"
  shows "\<exists>new. sys_stdout (snd (install_copy_in t s)) = sys_stdout s @ new
           \<and> fst (install_copy_in t s) = Inr False
           \<and> ErrorReport e False \<in> set new
           \<and> recovery_outcome
                (recovery_error t
                   (snd (shutil_copyfile (path_join t ''download_data'') (fileutil_path s) s)))
                orig (fileutil_path s) (snd (install_copy_in t s)) new"
proof -
  define c where "c = shutil_copyfile (path_join t ''download_data'') (fileutil_path s) s"
  define pre where "pre = (if args_quiet s then []
     else [Print ''# Removed original file!'',
           Print ''# Copying download data to root directory...'',
           Print (''# ('' @ path_join t ''download_data'' @ '' > '' @ fileutil_path s @ '')'')])"
  define S where "S = (snd c)\<lparr>sys_stdout := sys_stdout s @ pre\<rparr>"
  have ce: "fst c = Inl e" using assms(4) by (simp add: c_def)
  have inst: "install_copy_in t s = fail_and_recover ''File Copy'' e S"
    using ce
    by (simp add: install_copy_in_def Let_def nested_output3 shutil_copyfile_stdout
                  c_def [symmetric] pre_def S_def)
  have nomsg: "Print ''# Critical error during recovery process!'' \<notin> set pre"
    "Print (CHR 0x0A # ''Recovery process complete!'') \<notin> set pre"
    by (simp_all add: pre_def)
  have f: "fileutil_temp S = Some t" "os_files S (path_join t ''backup'') = Some orig"
    "fileutil_path S \<noteq> path_join t ''backup''" "fileutil_path S = fileutil_path s"
    "sys_stdout S = sys_stdout s @ pre" "recovery_error t S = recovery_error t (snd c)"
    using assms(1,2,3) by (simp_all add: S_def c_def)
  from fail_and_recover_outcome [OF f(1,2,3), of "''File Copy''" e] f(4,6) obtain new where
    n: "sys_stdout (snd (fail_and_recover ''File Copy'' e S)) = sys_stdout S @ new"
       "fst (fail_and_recover ''File Copy'' e S) = Inr False"
       "ErrorReport e False \<in> set new"
       "recovery_outcome (recovery_error t (snd c)) orig (fileutil_path s)
          (snd (fail_and_recover ''File Copy'' e S)) new"
    by auto
  from recovery_outcome_prefix [OF n(4) nomsg] n(1,2,3) f(5) show ?thesis
    by (intro exI [of _ "pre @ new"]) (simp add: inst c_def)
qed

lemma install_delete_failure:
  assumes "fileutil_temp s = Some t" "os_files s (path_join t ''backup'') = Some orig"
    and "fileutil_path s \<noteq> path_join t ''backup''"
    and "failed_step t s = Some (e, sf)"
  shows "\<exists>new. sys_stdout (snd (install_delete t s)) = sys_stdout s @ new
           \<and> fst (install_delete t s) = Inr False
           \<and> ErrorReport e False \<in> set new
           \<and> recovery_outcome (recovery_error t sf) orig (fileutil_path s)
                (snd (install_delete t s)) new"
proof -
  define r where "r = os_remove (fileutil_path s) s"
  define pre where "pre = (if args_quiet s then []
     else [Print (''# Backup created at: '' @ path_join t ''backup''),
           Print (''# Deleting current file at '' @ fileutil_path s @ ''...'')])"
  define S where "S = (snd r)\<lparr>sys_stdout := sys_stdout s @ pre\<rparr>"
  have nomsg: "Print ''# Critical error during recovery process!'' \<notin> set pre"
    "Print (CHR 0x0A # ''Recovery process complete!'') \<notin> set pre"
    by (simp_all add: pre_def)
  have inst: "install_delete t s =
      (case fst r of Inl e \<Rightarrow> fail_and_recover ''Old File Deletion'' e S
       | Inr u \<Rightarrow> install_copy_in t S)"
    by (simp add: install_delete_def Let_def nested_output2 os_remove_stdout
                  r_def [symmetric] pre_def S_def split: sum.splits)
  have f: "fileutil_temp S = Some t" "os_files S (path_join t ''backup'') = Some orig"
    "fileutil_path S \<noteq> path_join t ''backup''" "fileutil_path S = fileutil_path s"
    "sys_stdout S = sys_stdout s @ pre" "recovery_error t S = recovery_error t (snd r)"
    using assms(1,2,3) by (simp_all add: S_def r_def)
  have "\<exists>new. sys_stdout (snd (install_delete t s)) = sys_stdout S @ new
           \<and> fst (install_delete t s) = Inr False
           \<and> ErrorReport e False \<in> set new
           \<and> recovery_outcome (recovery_error t sf) orig (fileutil_path s)
                (snd (install_delete t s)) new"
  proof (cases "fst r")
    case (Inl e')
    with assms(4) have e: "e' = e" "sf = snd r"
      by (simp_all add: failed_step_def Let_def r_def)
    from Inl e have "install_delete t s = fail_and_recover ''Old File Deletion'' e S"
      by (simp add: inst)
    with fail_and_recover_outcome [OF f(1,2,3), of "''Old File Deletion''" e] f(4,6) e(2)
    show ?thesis by auto
  next
    case (Inr u)
    define c where "c = shutil_copyfile (path_join t ''download_data'') (fileutil_path s) (snd r)"
    from Inr assms(4) have e: "fst c = Inl e" "sf = snd c"
      by (auto simp: failed_step_def Let_def r_def c_def split: sum.splits)
    have cS: "shutil_copyfile (path_join t ''download_data'') (fileutil_path S) S
                = (Inl e, (snd c)\<lparr>sys_stdout := sys_stdout s @ pre\<rparr>)"
      using e(1) by (simp add: S_def shutil_copyfile_stdout c_def r_def)
    from Inr have i: "install_delete t s = install_copy_in t S"
      by (simp add: inst)
    from cS have "fst (shutil_copyfile (path_join t ''download_data'') (fileutil_path S) S) = Inl e"
      by simp
    from install_copy_in_failure [OF f(1,2,3) this] i cS e(2) f(4)
    show ?thesis by simp
  qed
  then obtain new where
    n: "sys_stdout (snd (install_delete t s)) = sys_stdout S @ new"
       "fst (install_delete t s) = Inr False"
       "ErrorReport e False \<in> set new"
       "recovery_outcome (recovery_error t sf) orig (fileutil_path s)
          (snd (install_delete t s)) new"
    by blast
  from recovery_outcome_prefix [OF n(4) nomsg] n(1,2,3) f(5) show ?thesis
    by (intro exI [of _ "pre @ new"]) simp
qed

text \<open>
  Claim C1. The backup-copy step succeeded; then the delete step raises, or the delete
  step succeeds and the copy-in step raises: \<open>e\<close> is the exception and \<open>sf\<close> the state the
  failed step leaves. Then \<open>install\<close> returns \<open>False\<close> and reports \<open>e\<close>, and the recovery
  runs from \<open>sf\<close>. When neither of its two steps fails (\<^verbatim>\<open>os.remove\<close> of the target returns
  or raises \<^verbatim>\<open>FileNotFoundError\<close>, and the copy of the backup returns), the target holds
  its pre-attempt bytes again, the recovery is announced complete and no critical failure
  is announced. When one of them raises \<open>e'\<close> (\<^verbatim>\<open>os.remove\<close> anything else, or the copy
  anything), \<open>e'\<close> is reported and the critical failure is announced
  (\<^verbatim>\<open># Critical error during recovery process!\<close>,
  \<^verbatim>\<open>Your previous installation could not be recovered.\<close>), and no recovery is announced
  complete. These lines are printed with \<^verbatim>\<open>print\<close>, so quiet mode does not hide them.
\<close>

theorem install_failure_recovers_or_reports:
  assumes "fileutil_temp s = Some t"
    and "fst (backup_step s) = Inr ()"
    and "failed_step t (snd (backup_step s)) = Some (e, sf)"
  shows "fst (install s) = Inr False
       \<and> ErrorReport e False \<in> set (emitted s (snd (install s)))
       \<and> (recovery_error t sf = None \<longrightarrow>
            os_files (snd (install s)) (fileutil_path s) = os_files s (fileutil_path s)
            \<and> Print (CHR 0x0A # ''Recovery process complete!'')
                \<in> set (emitted s (snd (install s)))
            \<and> Print ''# Critical error during recovery process!''
                \<notin> set (emitted s (snd (install s))))
       \<and> (\<forall>e'. recovery_error t sf = Some e' \<longrightarrow>
            ErrorReport e' False \<in> set (emitted s (snd (install s)))
            \<and> Print ''# Critical error during recovery process!''
                \<in> set (emitted s (snd (install s)))
            \<and> Print ''Your previous installation could not be recovered.''
                \<in> set (emitted s (snd (install s)))
            \<and> Print (CHR 0x0A # ''Recovery process complete!'')
                \<notin> set (emitted s (snd (install s))))"
proof -
  define b where "b = path_join t ''backup''"
  define c where "c = backup_step s"
  define pre where "pre = (if args_quiet s then []
     else [Print (CHR 0x0A # ''[ --== installation: ==-- ]''),
           Print ''# Creating backup of previous installation...''])"
  define S where "S = (snd c)\<lparr>sys_stdout := sys_stdout s @ pre\<rparr>"
  define sf' where "sf' = sf\<lparr>sys_stdout := sys_stdout s @ pre\<rparr>"
  have nomsg: "Print ''# Critical error during recovery process!'' \<notin> set pre"
    "Print (CHR 0x0A # ''Recovery process complete!'') \<notin> set pre"
    by (simp_all add: pre_def)
  have cs: "c = shutil_copyfile (fileutil_path s) b s"
    using assms(1) by (simp add: c_def backup_step_def b_def)
  have ok: "fst c = Inr ()" using assms(2) by (simp add: c_def)
  from shutil_copyfile_done [of "fileutil_path s" b s "()"] ok cs
  obtain orig where o: "fileutil_path s \<noteq> b" "os_files s (fileutil_path s) = Some orig"
    "os_files (snd c) b = Some orig"
    by auto
  have f: "fileutil_temp S = Some t" "os_files S (path_join t ''backup'') = Some orig"
    "fileutil_path S \<noteq> path_join t ''backup''" "fileutil_path S = fileutil_path s"
    "sys_stdout S = sys_stdout s @ pre"
    using assms(1) o by (simp_all add: S_def cs b_def)
  have inst: "install s = install_delete t S"
    using ok f(1)
    by (simp add: install_def Let_def nested_output2 backup_step_stdout c_def [symmetric]
                  pre_def [symmetric] S_def [symmetric])
  have h: "failed_step t S = Some (e, sf')"
    using assms(3) by (simp add: S_def sf'_def c_def failed_step_stdout)
  have re: "recovery_error t sf' = recovery_error t sf"
    by (simp add: sf'_def)
  from install_delete_failure [OF f(1,2,3) h] re f(4) obtain new where
    n: "sys_stdout (snd (install_delete t S)) = sys_stdout S @ new"
       "fst (install_delete t S) = Inr False"
       "ErrorReport e False \<in> set new"
       "recovery_outcome (recovery_error t sf) orig (fileutil_path s)
          (snd (install_delete t S)) new"
    by auto
  have out: "sys_stdout (snd (install s)) = sys_stdout s @ (pre @ new)"
    using n(1) f(5) by (simp add: inst)
  have em: "emitted s (snd (install s)) = pre @ new"
    using out by (rule emitted_append)
  have "recovery_outcome (recovery_error t sf) orig (fileutil_path s) (snd (install s))
          (pre @ new)"
    using recovery_outcome_prefix [OF n(4) nomsg] by (simp add: inst)
  then show ?thesis
    using n(2,3) o(2) unfolding em
    by (auto simp: inst recovery_outcome_def)
qed

lemma backup_step_frame:
  "fst (backup_step s) = Inl e \<Longrightarrow>
     os_files (snd (backup_step s)) (fileutil_path s) = os_files s (fileutil_path s)"
  "calls (snd (backup_step s))
     = calls s @ (case fileutil_temp s of
                    None \<Rightarrow> []
                  | Some t \<Rightarrow> [Copyfile (fileutil_path s) (path_join t ''backup'')])"
  "sys_stdout (snd (backup_step s)) = sys_stdout s"
proof -
  show "fst (backup_step s) = Inl e \<Longrightarrow>
     os_files (snd (backup_step s)) (fileutil_path s) = os_files s (fileutil_path s)"
  proof (cases "fileutil_temp s")
    case None
    then show ?thesis by (simp add: backup_step_def)
  next
    case (Some t)
    then show ?thesis
      by (cases "fileutil_path s = path_join t ''backup''")
         (simp_all add: backup_step_def shutil_copyfile_same)
  qed
  show "calls (snd (backup_step s))
     = calls s @ (case fileutil_temp s of
                    None \<Rightarrow> []
                  | Some t \<Rightarrow> [Copyfile (fileutil_path s) (path_join t ''backup'')])"
    by (simp add: backup_step_def split: option.splits)
  show "sys_stdout (snd (backup_step s)) = sys_stdout s"
    by (simp add: backup_step_def split: option.splits)
qed

text \<open>
  Claim C6. When the backup-copy step fails (the copy raises, or there is no temporary
  directory to copy to), \<open>install\<close> returns \<open>False\<close>; the copy, if it was called, is the
  only file operation made, so the target is neither deleted nor written by a recovery;
  the target holds the bytes it held before; and the failure is reported, with its fail
  point, also in quiet mode.
\<close>

theorem install_backup_failure:
  assumes "fst (backup_step s) = Inl e"
  shows "fst (install s) = Inr False
       \<and> performed s (snd (install s))
           = (case fileutil_temp s of
                None \<Rightarrow> []
              | Some t \<Rightarrow> [Copyfile (fileutil_path s) (path_join t ''backup'')])
       \<and> os_files (snd (install s)) (fileutil_path s) = os_files s (fileutil_path s)
       \<and> ErrorReport e False \<in> set (emitted s (snd (install s)))
       \<and> Print ''Fail point: File Backup'' \<in> set (emitted s (snd (install s)))"
proof -
  define c where "c = backup_step s"
  define pre where "pre = (if args_quiet s then []
     else [Print (CHR 0x0A # ''[ --== installation: ==-- ]''),
           Print ''# Creating backup of previous installation...''])"
  have ce: "fst c = Inl e" using assms by (simp add: c_def)
  have inst: "install s =
     (Inr False,
      error_report e False
        (fail_install ''File Backup'' ((snd c)\<lparr>sys_stdout := sys_stdout s @ pre\<rparr>)))"
    using ce
    by (simp add: install_def Let_def nested_output2 backup_step_stdout c_def [symmetric]
                  pre_def)
  show ?thesis
    using backup_step_frame(1) [of s e] backup_step_frame(2,3) [of s] assms
    by (simp add: inst performed_def emitted_def error_report_def fail_install_def
                  print_lines_eq c_def)
qed

theorem install_backup_failure_witness:
  "fst (install (staged_process\<lparr>os_faults := [Fails OSError (Some 1)]\<rparr>)) = Inr False
   \<and> performed (staged_process\<lparr>os_faults := [Fails OSError (Some 1)]\<rparr>)
        (snd (install (staged_process\<lparr>os_faults := [Fails OSError (Some 1)]\<rparr>)))
      = [Copyfile ''server/paper.jar'' ''/tmp/tmpupdate/backup'']
   \<and> os_files (snd (install (staged_process\<lparr>os_faults := [Fails OSError (Some 1)]\<rparr>)))
        ''server/paper.jar'' = Some [1, 2]
   \<and> ErrorReport OSError False
        \<in> set (emitted (staged_process\<lparr>os_faults := [Fails OSError (Some 1)]\<rparr>)
                 (snd (install (staged_process\<lparr>os_faults := [Fails OSError (Some 1)]\<rparr>))))"
  using install_backup_failure [of "staged_process\<lparr>os_faults := [Fails OSError (Some 1)]\<rparr>" OSError]
  by (simp add: staged_process_def start_process_def backup_step_def shutil_copyfile_def
                Let_def next_fault_def os_call_def path_join_def)

theorem install_failure_recovers_or_reports_witness:
  "fst (install (staged_process\<lparr>os_faults := [NoFault, Fails OSError None]\<rparr>)) = Inr False
   \<and> ErrorReport OSError False
       \<in> set (emitted (staged_process\<lparr>os_faults := [NoFault, Fails OSError None]\<rparr>)
                (snd (install (staged_process\<lparr>os_faults := [NoFault, Fails OSError None]\<rparr>))))
   \<and> os_files (snd (install (staged_process\<lparr>os_faults := [NoFault, Fails OSError None]\<rparr>)))
       ''server/paper.jar'' = Some [1, 2]
   \<and> Print (CHR 0x0A # ''Recovery process complete!'')
       \<in> set (emitted (staged_process\<lparr>os_faults := [NoFault, Fails OSError None]\<rparr>)
                (snd (install (staged_process\<lparr>os_faults := [NoFault, Fails OSError None]\<rparr>))))
   \<and> fst (install (staged_process
             \<lparr>os_faults := [NoFault, NoFault, Fails OSError (Some 1), NoFault,
                            Fails TypeError None]\<rparr>)) = Inr False
   \<and> ErrorReport TypeError False
       \<in> set (emitted (staged_process
                         \<lparr>os_faults := [NoFault, NoFault, Fails OSError (Some 1), NoFault,
                                        Fails TypeError None]\<rparr>)
                (snd (install (staged_process
                         \<lparr>os_faults := [NoFault, NoFault, Fails OSError (Some 1), NoFault,
                                        Fails TypeError None]\<rparr>))))
   \<and> Print ''# Critical error during recovery process!''
       \<in> set (emitted (staged_process
                         \<lparr>os_faults := [NoFault, NoFault, Fails OSError (Some 1), NoFault,
                                        Fails TypeError None]\<rparr>)
                (snd (install (staged_process
                         \<lparr>os_faults := [NoFault, NoFault, Fails OSError (Some 1), NoFault,
                                        Fails TypeError None]\<rparr>))))"
proof -
  let ?a = "staged_process\<lparr>os_faults := [NoFault, Fails OSError None]\<rparr>"
  let ?b = "staged_process\<lparr>os_faults := [NoFault, NoFault, Fails OSError (Some 1), NoFault,
                                          Fails TypeError None]\<rparr>"
  let ?sa = "snd (os_remove ''server/paper.jar'' (snd (backup_step ?a)))"
  let ?sb = "snd (shutil_copyfile ''/tmp/tmpupdate/download_data'' ''server/paper.jar''
                    (snd (os_remove ''server/paper.jar'' (snd (backup_step ?b)))))"
  have a: "fst (install ?a) = Inr False
           \<and> ErrorReport OSError False \<in> set (emitted ?a (snd (install ?a)))
           \<and> os_files (snd (install ?a)) ''server/paper.jar'' = Some [1, 2]
           \<and> Print (CHR 0x0A # ''Recovery process complete!'')
               \<in> set (emitted ?a (snd (install ?a)))"
    using install_failure_recovers_or_reports [of ?a "''/tmp/tmpupdate''" OSError ?sa]
    by (simp add: staged_process_def start_process_def backup_step_def shutil_copyfile_def
                  os_remove_def Let_def next_fault_def os_call_def path_join_def
                  failed_step_def recovery_error_def copy_error_def)
  have b: "fst (install ?b) = Inr False
           \<and> ErrorReport TypeError False \<in> set (emitted ?b (snd (install ?b)))
           \<and> Print ''# Critical error during recovery process!''
               \<in> set (emitted ?b (snd (install ?b)))"
    using install_failure_recovers_or_reports [of ?b "''/tmp/tmpupdate''" OSError ?sb]
    by (simp add: staged_process_def start_process_def backup_step_def shutil_copyfile_def
                  os_remove_def Let_def next_fault_def os_call_def path_join_def
                  failed_step_def recovery_error_def copy_error_def)
  from a b show ?thesis by blast
qed

text \<open>The second of these runs leaves no target at all: the copy-in wrote one byte and
  raised, the recovery deleted the target and its copy raised.\<close>

lemma install_run_critical:
  "os_files (snd (install (staged_process
       \<lparr>os_faults := [NoFault, NoFault, Fails OSError (Some 1), NoFault,
                      Fails TypeError None]\<rparr>))) ''server/paper.jar'' = None"
  by (simp add: install_def install_delete_def install_copy_in_def install_finish_def
                fail_and_recover_def recover_backup_def recover_copy_def critical_recovery_def
                fail_install_def backup_step_def shutil_copyfile_def os_remove_def
                Let_def next_fault_def os_call_def path_join_def staged_process_def
                start_process_def print_lines_eq print_line_def output_text_eq
                error_report_def banner_def)

section \<open>Properties of \<^verbatim>\<open>download\<close>\<close>

subsection \<open>The number of rounds\<close>

text \<open>The float division of line 204 gives the ceiling of the exact quotient as long as
  the length is below \<open>4608 * 2 ^ 41\<close>: the quotient then has an exponent of at most 40,
  so the double carries at least twelve bits after the binary point, and a quotient
  that is no integer lies at least \<open>1 / 4608\<close> above the integer below it.\<close>

lemma round_half_even_bounds:
  fixes K P A :: int
  assumes "4096 \<le> K" "4608 * P + K \<le> A" "A \<le> 4608 * P + 4608 * K"
  shows "P < round_half_even A 4608 \<and> round_half_even A 4608 \<le> P + K"
proof -
  define q where "q = A div 4608"
  define r where "r = A mod 4608"
  have a: "A = 4608 * q + r" "0 \<le> r" "r < 4608"
    by (simp_all add: q_def r_def)
  show ?thesis
    unfolding round_half_even_def Let_def q_def [symmetric] r_def [symmetric]
    using a assms by (auto; presburger)
qed

lemma ceil_from_bounds:
  fixes K m c :: int
  assumes "0 < K" "(c - 1) * K < m" "m \<le> c * K"
  shows "- ((- m) div K) = c"
proof -
  have "- m = K * (- c) + (c * K - m)" by (simp add: algebra_simps)
  moreover have "0 \<le> c * K - m" "c * K - m < K" using assms by (simp_all add: algebra_simps)
  ultimately have "(- m) div K = - c"
    by (metis int_div_pos_eq)
  then show ?thesis by simp
qed

lemma quotient_exponent_le:
  assumes "n < 4608 * 2 ^ 41"
  shows "quotient_exponent n 4608 \<le> 40"
proof -
  have b: "bitlen (4608 :: int) = 13"
  proof -
    have "bitlen (4608 :: int) \<le> 13" by (simp add: bitlen_le_iff_power)
    moreover have "\<not> bitlen (4608 :: int) \<le> 12" by (simp add: bitlen_le_iff_power)
    ultimately show ?thesis by linarith
  qed
  have "n < 2 ^ 54" using assms by simp
  then have n: "bitlen n \<le> 54" by (simp add: bitlen_le_iff_power)
  show ?thesis
  proof (cases "bitlen n - 13 \<le> 40")
    case True
    then show ?thesis by (simp add: quotient_exponent_def Let_def b)
  next
    case False
    with n have d: "bitlen n - 13 = 41" by linarith
    with assms show ?thesis by (simp add: quotient_exponent_def Let_def b)
  qed
qed

lemma ceil_div_4608:
  "(ceil_div n 4608 - 1) * 4608 < n" "n \<le> ceil_div n 4608 * 4608"
  by (simp_all add: ceil_div_def)

lemma ceil_truediv_exact:
  assumes "0 \<le> n" "n < 4608 * 2 ^ 41"
  shows "ceil_truediv n 4608 = Inr (ceil_div n 4608)"
proof (cases "n = 0")
  case True
  then show ?thesis
    by (simp add: ceil_truediv_def truediv_def float_overflows_def float_ceil_def ceil_div_def)
next
  case False
  with assms have pos: "0 < n" by simp
  define e where "e = quotient_exponent n 4608 - 52"
  define k where "k = nat (- e)"
  define K where "K = (2 :: int) ^ k"
  define c where "c = ceil_div n 4608"
  define m where "m = round_half_even (n * K) 4608"
  from quotient_exponent_le [of n] assms(2) have e: "e \<le> - 12"
    by (simp add: e_def)
  then have k: "12 \<le> k" by (simp add: k_def)
  have "(2 :: int) ^ 12 \<le> 2 ^ k" using k by (intro power_increasing) simp_all
  then have K: "4096 \<le> K" by (simp add: K_def)
  have td: "truediv n 4608 = (m, e)"
    using pos e by (simp add: truediv_def Let_def e_def m_def K_def k_def)
  from ceil_div_4608 [of n] have cb: "(c - 1) * 4608 + 1 \<le> n" "n \<le> c * 4608"
    by (simp_all add: c_def)
  have "((c - 1) * 4608 + 1) * K \<le> n * K" "n * K \<le> (c * 4608) * K"
    using cb K by (simp_all add: mult_right_mono)
  then have "4608 * ((c - 1) * K) + K \<le> n * K" "n * K \<le> 4608 * ((c - 1) * K) + 4608 * K"
    by (simp_all add: algebra_simps)
  from round_half_even_bounds [OF K this] have "(c - 1) * K < m" "m \<le> c * K"
    by (simp_all add: m_def algebra_simps)
  with ceil_from_bounds [of K c m] K have "- ((- m) div K) = c" by simp
  then have "float_ceil (m, e) = c"
    using e by (simp add: float_ceil_def K_def k_def)
  moreover have "\<not> float_overflows (m, e)"
    using e by (simp add: float_overflows_def)
  ultimately show ?thesis
    by (simp add: ceil_truediv_def td c_def)
qed

subsection \<open>The loop\<close>

lemma data_read_frame [simp]:
  "sys_stdout (snd (data_read amt s)) = sys_stdout s"
  "args_quiet (snd (data_read amt s)) = args_quiet s"
  "calls (snd (data_read amt s)) = calls s @ [ReadCall amt]"
  "os_files (snd (data_read amt s)) = os_files s"
  by (simp_all add: data_read_def Let_def record_call_def split: list.splits option.splits)

lemma file_write_frame [simp]:
  "sys_stdout (snd (file_write p b s)) = sys_stdout s"
  "args_quiet (snd (file_write p b s)) = args_quiet s"
  "calls (snd (file_write p b s)) = calls s @ [WriteCall p b]"
  by (simp_all add: file_write_def Let_def os_call_def split: fault.splits option.splits)

lemma open_append_frame [simp]:
  "sys_stdout (snd (open_append p s)) = sys_stdout s"
  "args_quiet (snd (open_append p s)) = args_quiet s"
  "calls (snd (open_append p s)) = calls s @ [OpenAppend p]"
  "net_data (snd (open_append p s)) = net_data s"
  by (simp_all add: open_append_def Let_def os_call_def split: fault.splits option.splits)

lemma read_calls_simps [simp]:
  "read_calls [] = []"
  "read_calls (xs @ ys) = read_calls xs @ read_calls ys"
  "read_calls (ReadCall n # xs) = ReadCall n # read_calls xs"
  "read_calls (WriteCall p b # xs) = read_calls xs"
  "read_calls (OpenAppend p # xs) = read_calls xs"
  "read_calls (CloseCall p # xs) = read_calls xs"
  "read_calls (Urlopen u # xs) = read_calls xs"
  by (simp_all add: read_calls_def)

lemma progress_reports_simps [simp]:
  "progress_reports [] = []"
  "progress_reports (xs @ ys) = progress_reports xs @ progress_reports ys"
  "progress_reports (Print t # xs) = progress_reports xs"
  "progress_reports (Write t # xs) = progress_reports xs"
  "progress_reports (ErrorReport e n # xs) = progress_reports xs"
  "progress_reports (bar_at a b c d i # xs) = bar_at a b c d i # progress_reports xs"
  by (simp_all add: progress_reports_def bar_at_def Let_def)

lemma progress_reports_bars [simp]:
  "progress_reports (map (\<lambda>i. bar_at a b c d (int i)) rounds)
     = map (\<lambda>i. bar_at a b c d (int i)) rounds"
  by (induction rounds) simp_all

lemma bytes_so_far_bar_at [simp]:
  "bytes_so_far (bar_at ntotal step endv prefix i)
     = (if i < ntotal - 1 then i * step else endv)"
  by (simp add: bytes_so_far_def bar_at_def Let_def)

lemma performed_append:
  "calls s' = calls s @ new \<Longrightarrow> performed s s' = new"
  by (simp add: performed_def)

lemma download_chunk_done:
  assumes "download_chunk path i s = (Inr u, s')"
  shows "sys_stdout s' = sys_stdout s" "args_quiet s' = args_quiet s"
    "\<exists>byts. calls s' = calls s @ [ReadCall blocksize, WriteCall path byts]"
proof -
  obtain r s1 where r: "data_read blocksize s = (r, s1)"
    by (cases "data_read blocksize s") auto
  with assms obtain byts where b: "r = Inr byts" "file_write path byts s1 = (Inr u, s')"
    by (cases r) (auto simp: download_chunk_def)
  have s1: "s1 = snd (data_read blocksize s)" using r by simp
  have s': "s' = snd (file_write path byts s1)" using b(2) by simp
  show "sys_stdout s' = sys_stdout s" by (simp add: s' s1)
  show "args_quiet s' = args_quiet s" by (simp add: s' s1)
  show "\<exists>byts. calls s' = calls s @ [ReadCall blocksize, WriteCall path byts]"
    by (rule exI [of _ byts]) (simp add: s' s1)
qed

lemma progress_loop_done:
  assumes "progress_loop rounds ntotal step endv prefix (download_chunk path) s = (Inr u, s')"
  shows "args_quiet s' = args_quiet s
       \<and> sys_stdout s' = sys_stdout s
            @ (if args_quiet s then [] else map (\<lambda>i. bar_at ntotal step endv prefix (int i)) rounds)
       \<and> (\<exists>new. calls s' = calls s @ new
             \<and> read_calls new = replicate (length rounds) (ReadCall blocksize))"
  using assms
proof (induction rounds arbitrary: s)
  case Nil
  then show ?case by simp
next
  case (Cons i rest)
  obtain r s1 where c: "download_chunk path (int i) s = (r, s1)"
    by (cases "download_chunk path (int i) s") auto
  with Cons.prems obtain v where r: "r = Inr v" by (cases r) auto
  define s2 where "s2 = render_bar ntotal step endv prefix (int i) s1"
  from Cons.prems c r have loop: "progress_loop rest ntotal step endv prefix (download_chunk path) s2
                                    = (Inr u, s')"
    by (simp add: s2_def)
  from download_chunk_done [OF c [unfolded r]] obtain byts where
    d: "sys_stdout s1 = sys_stdout s" "args_quiet s1 = args_quiet s"
       "calls s1 = calls s @ [ReadCall blocksize, WriteCall path byts]"
    by blast
  have s2: "args_quiet s2 = args_quiet s" "calls s2 = calls s1"
    "sys_stdout s2 = sys_stdout s
       @ (if args_quiet s then [] else [bar_at ntotal step endv prefix (int i)])"
    using d by (simp_all add: s2_def render_bar_def)
  from Cons.IH [OF loop] obtain new where
    ih: "args_quiet s' = args_quiet s2"
        "sys_stdout s' = sys_stdout s2
           @ (if args_quiet s2 then []
              else map (\<lambda>i. bar_at ntotal step endv prefix (int i)) rest)"
        "calls s' = calls s2 @ new"
        "read_calls new = replicate (length rest) (ReadCall blocksize)"
    by blast
  have "calls s' = calls s @ ([ReadCall blocksize, WriteCall path byts] @ new)"
    using ih(3) s2(2) d(3) by simp
  moreover have "read_calls ([ReadCall blocksize, WriteCall path byts] @ new)
                   = replicate (length (i # rest)) (ReadCall blocksize)"
    using ih(4) by simp
  ultimately have "\<exists>new. calls s' = calls s @ new
             \<and> read_calls new = replicate (length (i # rest)) (ReadCall blocksize)"
    by blast
  with ih(1,2) s2(1,3) show ?case by simp
qed

text \<open>A download that returns \<open>True\<close>: the float ceiling was computed, every round read
  once, and in a run that is not quiet each round wrote its bar.\<close>

lemma download_done:
  assumes "net_urlopen s (base_url @ ''/'' @ version @ ''/'' @ build_num @ ''/download'')
             = Inr data"
    and "py_int_opt (content_length data) = Inr n"
    and "fst (download path version build_num s) = Inr True"
  shows "\<exists>rounds. ceil_truediv n blocksize = Inr rounds
       \<and> read_calls (performed s (snd (download path version build_num s)))
           = replicate (nat (rounds + 1)) (ReadCall blocksize)
       \<and> progress_reports (emitted s (snd (download path version build_num s)))
           = (if args_quiet s then []
              else map (\<lambda>i. bar_at (rounds + 1) blocksize n ''Downloading:'' (int i))
                     [0..<nat (rounds + 1)])"
proof -
  define url where "url = base_url @ ''/'' @ version @ ''/'' @ build_num @ ''/download''"
  define s1 where "s1 = output_text (CHR 0x0A # ''[ --== Starting Download: ==-- ]'') s"
  define s2 where "s2 = output_text (''URL: '' @ url) s1"
  define s3 where "s3 = record_call (Urlopen url) s2"
  define s4 where "s4 = output_text (''Download Size: '' @ str_int n) (s3\<lparr>net_data := data\<rparr>)"
  have u3: "net_urlopen s3 url = Inr data"
    using assms(1) by (simp add: s3_def s2_def s1_def url_def)
  have dl: "download path version build_num s =
     (case open_append path s4 of
        (Inl e, s5) \<Rightarrow> (Inl e, s5)
      | (Inr u, s5) \<Rightarrow>
          (case download_loop path n s5 of
             (Inl e, s6) \<Rightarrow>
               (Inr False,
                file_close path
                  (error_report e (is_URLError e) (url_report ''File Download'' s6)))
           | (Inr u, s6) \<Rightarrow>
               (Inr True,
                output_text ''[ --== Download Complete! ==-- ]'' (file_close path s6))))"
    unfolding download_def Let_def url_def [symmetric] s1_def [symmetric] s2_def [symmetric]
              s3_def [symmetric]
    by (simp add: u3 assms(2) s4_def)
  obtain r5 s5 where oa: "open_append path s4 = (r5, s5)"
    by (cases "open_append path s4") auto
  with assms(3) dl obtain u5 where r5: "r5 = Inr u5" by (cases r5) auto
  obtain r6 s6 where lp: "download_loop path n s5 = (r6, s6)"
    by (cases "download_loop path n s5") auto
  with assms(3) dl oa r5 obtain u6 where r6: "r6 = Inr u6" by (cases r6) auto
  from lp r6 obtain rounds where rounds: "ceil_truediv n blocksize = Inr rounds"
    by (cases "ceil_truediv n blocksize") (auto simp: download_loop_def)
  define ntotal where "ntotal = rounds + 1"
  have pb: "progress_bar ntotal blocksize n ''Downloading:'' (download_chunk path) s5
              = (Inr u6, s6)"
    using lp r6 rounds by (simp add: download_loop_def ntotal_def)
  obtain r7 s7 where pl: "progress_loop [0..<nat ntotal] ntotal blocksize n ''Downloading:''
                            (download_chunk path) s5 = (r7, s7)"
    by (cases "progress_loop [0..<nat ntotal] ntotal blocksize n ''Downloading:''
                 (download_chunk path) s5") auto
  with pb obtain u7 where r7: "r7 = Inr u7" by (cases r7) (auto simp: progress_bar_def)
  have s6: "s6 = (if \<not> args_quiet s7 then s7\<lparr>sys_stdout := sys_stdout s7 @ [Write [CHR 0x0A]]\<rparr>
                  else s7)"
    using pb pl r7 by (auto simp: progress_bar_def)
  have fin: "snd (download path version build_num s)
               = output_text ''[ --== Download Complete! ==-- ]'' (file_close path s6)"
    by (simp add: dl oa r5 lp r6)
  have s4f: "args_quiet s4 = args_quiet s" "calls s4 = calls s @ [Urlopen url]"
    "sys_stdout s4 = sys_stdout s
       @ (if args_quiet s then []
          else [Print (CHR 0x0A # ''[ --== Starting Download: ==-- ]''),
                Print (''URL: '' @ url), Print (''Download Size: '' @ str_int n)])"
    by (simp_all add: s4_def s3_def s2_def s1_def output_text_eq record_call_def)
  have s5: "s5 = snd (open_append path s4)" using oa by simp
  have s5f: "args_quiet s5 = args_quiet s" "calls s5 = calls s @ [Urlopen url, OpenAppend path]"
    "sys_stdout s5 = sys_stdout s4"
    by (simp_all add: s5 s4f)
  from progress_loop_done [OF pl [unfolded r7]] obtain new where
    l: "args_quiet s7 = args_quiet s5"
       "sys_stdout s7 = sys_stdout s5
          @ (if args_quiet s5 then []
             else map (\<lambda>i. bar_at ntotal blocksize n ''Downloading:'' (int i)) [0..<nat ntotal])"
       "calls s7 = calls s5 @ new"
       "read_calls new = replicate (length [0..<nat ntotal]) (ReadCall blocksize)"
    by blast
  have "calls (snd (download path version build_num s))
          = calls s @ ([Urlopen url, OpenAppend path] @ new @ [CloseCall path])"
    using l(3) s5f(2) by (simp add: fin s6 file_close_def record_call_def)
  then have "performed s (snd (download path version build_num s))
               = [Urlopen url, OpenAppend path] @ new @ [CloseCall path]"
    by (rule performed_append)
  then have reads: "read_calls (performed s (snd (download path version build_num s)))
           = replicate (nat ntotal) (ReadCall blocksize)"
    using l(4) by simp
  have "sys_stdout (snd (download path version build_num s))
          = sys_stdout s
            @ (if args_quiet s then []
               else [Print (CHR 0x0A # ''[ --== Starting Download: ==-- ]''),
                     Print (''URL: '' @ url), Print (''Download Size: '' @ str_int n)]
                    @ map (\<lambda>i. bar_at ntotal blocksize n ''Downloading:'' (int i)) [0..<nat ntotal]
                    @ [Write [CHR 0x0A], Print ''[ --== Download Complete! ==-- ]''])"
    using l(1,2) s5f(1,3) s4f(3)
    by (simp add: fin s6 file_close_def output_text_eq record_call_def)
  then have "emitted s (snd (download path version build_num s))
          = (if args_quiet s then []
               else [Print (CHR 0x0A # ''[ --== Starting Download: ==-- ]''),
                     Print (''URL: '' @ url), Print (''Download Size: '' @ str_int n)]
                    @ map (\<lambda>i. bar_at ntotal blocksize n ''Downloading:'' (int i)) [0..<nat ntotal]
                    @ [Write [CHR 0x0A], Print ''[ --== Download Complete! ==-- ]''])"
    by (rule emitted_append)
  then have "progress_reports (emitted s (snd (download path version build_num s)))
           = (if args_quiet s then []
              else map (\<lambda>i. bar_at ntotal blocksize n ''Downloading:'' (int i)) [0..<nat ntotal])"
    by simp
  with reads rounds show ?thesis by (simp add: ntotal_def)
qed

lemma py_int_opt_3: "py_int_opt (Some ''3'') = Inr 3"
  by code_simp

lemma py_int_opt_0: "py_int_opt (Some ''0'') = Inr 0"
  by code_simp

text \<open>
  Claim C5, as amended. A download of declared length \<open>n\<close>, with \<open>0 \<le> n < 4608 * 2 ^ 41\<close>,
  that returns \<open>True\<close>: every read asks for 4608 bytes; the number of reads is the ceiling
  of \<open>n / 4608\<close> plus one (the last read finds the body exhausted); no progress report
  shows more bytes than \<open>n\<close>; and in a run that is not quiet there is one progress report
  for each read, the last of which shows exactly \<open>n\<close> bytes.
\<close>

theorem download_reads_and_progress:
  assumes "net_urlopen s (base_url @ ''/'' @ version @ ''/'' @ build_num @ ''/download'')
             = Inr data"
    and "py_int_opt (content_length data) = Inr n"
    and "0 \<le> n" and "n < 4608 * 2 ^ 41"
    and "fst (download path version build_num s) = Inr True"
  shows "read_calls (performed s (snd (download path version build_num s)))
           = replicate (nat (ceil_div n 4608 + 1)) (ReadCall 4608)
       \<and> (\<forall>b \<in> set (progress_reports (emitted s (snd (download path version build_num s)))).
             bytes_so_far b \<le> n)
       \<and> (\<not> args_quiet s \<longrightarrow>
             length (progress_reports (emitted s (snd (download path version build_num s))))
               = nat (ceil_div n 4608 + 1)
             \<and> bytes_so_far
                 (last (progress_reports (emitted s (snd (download path version build_num s)))))
               = n)"
proof -
  define c where "c = ceil_div n 4608"
  have c0: "0 \<le> c"
    using ceil_div_4608(2) [of n] assms(3) unfolding c_def [symmetric]
    by (cases "0 \<le> c") auto
  from download_done [OF assms(1,2,5)] ceil_truediv_exact [OF assms(3,4)]
  have reads: "read_calls (performed s (snd (download path version build_num s)))
                 = replicate (nat (c + 1)) (ReadCall 4608)"
    and bars: "progress_reports (emitted s (snd (download path version build_num s)))
           = (if args_quiet s then []
              else map (\<lambda>i. bar_at (c + 1) 4608 n ''Downloading:'' (int i)) [0..<nat (c + 1)])"
    by (auto simp: blocksize_def c_def)
  have below: "bytes_so_far (bar_at (c + 1) 4608 n ''Downloading:'' (int i)) \<le> n" for i
  proof (cases "int i < c")
    case True
    then have "int i * 4608 \<le> (c - 1) * 4608" by simp
    with ceil_div_4608(1) [of n] have "int i * 4608 \<le> n" unfolding c_def by linarith
    with True show ?thesis by simp
  next
    case False
    then show ?thesis by simp
  qed
  have bound: "\<forall>b \<in> set (progress_reports (emitted s (snd (download path version build_num s)))).
                 bytes_so_far b \<le> n"
    using below by (auto simp: bars)
  have lastbar: "\<not> args_quiet s \<longrightarrow>
             length (progress_reports (emitted s (snd (download path version build_num s))))
               = nat (c + 1)
             \<and> bytes_so_far
                 (last (progress_reports (emitted s (snd (download path version build_num s)))))
               = n"
  proof
    assume q: "\<not> args_quiet s"
    from c0 obtain k where k: "nat (c + 1) = Suc k" "int k = c"
      by (cases "nat (c + 1)") auto
    have "last (map (\<lambda>i. bar_at (c + 1) 4608 n ''Downloading:'' (int i)) [0..<nat (c + 1)])
            = bar_at (c + 1) 4608 n ''Downloading:'' (int k)"
      by (simp add: k(1))
    with q k show "length (progress_reports (emitted s (snd (download path version build_num s))))
               = nat (c + 1)
             \<and> bytes_so_far
                 (last (progress_reports (emitted s (snd (download path version build_num s)))))
               = n"
      by (simp add: bars)
  qed
  from reads bound lastbar show ?thesis unfolding c_def by blast
qed

lemma download_loop_3:
  "download_loop path 3 s
     = progress_bar 2 4608 3 ''Downloading:'' (download_chunk path) s"
  using ceil_truediv_exact [of 3]
  by (simp add: download_loop_def blocksize_def ceil_div_def)

lemma download_loop_0:
  "download_loop path 0 s
     = progress_bar 1 4608 0 ''Downloading:'' (download_chunk path) s"
  using ceil_truediv_exact [of 0]
  by (simp add: download_loop_def blocksize_def ceil_div_def)

lemma progress_bar_2:
  "progress_bar 2 step endv prefix loop_body s
     = (case progress_loop [0, 1] 2 step endv prefix loop_body s of
          (Inl e, s1) \<Rightarrow> (Inl e, s1)
        | (Inr u, s1) \<Rightarrow>
            (Inr (),
             if \<not> args_quiet s1 then s1\<lparr>sys_stdout := sys_stdout s1 @ [Write [CHR 0x0A]]\<rparr>
             else s1))"
  by (simp add: progress_bar_def numeral_2_eq_2)

lemma progress_bar_1:
  "progress_bar 1 step endv prefix loop_body s
     = (case progress_loop [0] 1 step endv prefix loop_body s of
          (Inl e, s1) \<Rightarrow> (Inl e, s1)
        | (Inr u, s1) \<Rightarrow>
            (Inr (),
             if \<not> args_quiet s1 then s1\<lparr>sys_stdout := sys_stdout s1 @ [Write [CHR 0x0A]]\<rparr>
             else s1))"
  by (simp add: progress_bar_def)

lemma download_paper_api:
  "fst (download ''dl'' ''1.16.5'' ''205'' installed_200) = Inr True"
  by (simp add: download_def Let_def installed_200_def start_process_def paper_api_def
                base_url_def output_text_eq record_call_def py_int_opt_3 open_append_def
                next_fault_def os_call_def download_loop_3 progress_bar_2 blocksize_def
                download_chunk_def data_read_def file_write_def
                render_bar_def file_close_def)

theorem download_reads_and_progress_witness:
  "read_calls (performed installed_200 (snd (download ''dl'' ''1.16.5'' ''205'' installed_200)))
     = [ReadCall 4608, ReadCall 4608]
   \<and> length (progress_reports
               (emitted installed_200 (snd (download ''dl'' ''1.16.5'' ''205'' installed_200))))
       = 2
   \<and> bytes_so_far
       (last (progress_reports
                (emitted installed_200 (snd (download ''dl'' ''1.16.5'' ''205'' installed_200)))))
       = 3"
proof -
  have h1: "net_urlopen installed_200 (base_url @ ''/'' @ ''1.16.5'' @ ''/'' @ ''205'' @ ''/download'')
              = Inr \<lparr>content_length = Some ''3'', body = [1, 2, 3], read_faults = [],
                     decoded = Inl ValueError\<rparr>"
    by (simp add: installed_200_def start_process_def paper_api_def base_url_def)
  have h2: "py_int_opt (content_length \<lparr>content_length = Some ''3'', body = [1, 2, 3],
                                         read_faults = [], decoded = Inl ValueError\<rparr>) = Inr 3"
    by (simp add: py_int_opt_3)
  have h3: "\<not> args_quiet installed_200"
    by (simp add: installed_200_def start_process_def)
  from download_reads_and_progress [OF h1 h2 _ _ download_paper_api] h3
  show ?thesis by (simp add: ceil_div_def numeral_2_eq_2)
qed

text \<open>
  Claim C5, as stated, fails at \<open>N = 0\<close> (and at every other length): the loop runs
  \<^verbatim>\<open>ceil(length/blocksize) + 1\<close> rounds, so a body of declared length 0, whose ceiling is
  0, is read once.
\<close>

theorem download_extra_read_counterexample:
  "py_int_opt (content_length (idle_response\<lparr>content_length := Some ''0''\<rparr>)) = Inr 0
   \<and> ceil_div 0 4608 = 0
   \<and> fst (download ''dl'' ''1.16.5'' ''205'' empty_download) = Inr True
   \<and> read_calls (performed empty_download (snd (download ''dl'' ''1.16.5'' ''205'' empty_download)))
       = [ReadCall 4608]"
proof -
  have t: "fst (download ''dl'' ''1.16.5'' ''205'' empty_download) = Inr True"
    by (simp add: download_def Let_def empty_download_def start_process_def idle_response_def
                  output_text_eq record_call_def py_int_opt_0 open_append_def
                  next_fault_def os_call_def download_loop_0 progress_bar_1 blocksize_def
                  download_chunk_def data_read_def file_write_def
                  render_bar_def file_close_def)
  from download_done [of empty_download "''1.16.5''" "''205''"
                         "idle_response\<lparr>content_length := Some ''0''\<rparr>" 0 "''dl''"] t
  have "read_calls (performed empty_download
                      (snd (download ''dl'' ''1.16.5'' ''205'' empty_download)))
          = [ReadCall 4608]"
    by (simp add: empty_download_def start_process_def py_int_opt_0 idle_response_def
                  blocksize_def ceil_truediv_exact ceil_div_def)
  with t show ?thesis
    by (simp add: py_int_opt_0 idle_response_def ceil_div_def)
qed

end
